theory Spec2Isabelle
  imports Complex_Main
begin

section \<open>JavaScript numbers\<close>

text \<open>
  A JavaScript number is a double. It is modelled by its value: a real, with \<open>Fin 0\<close>
  for the zero of positive sign, the zero of negative sign, the two infinities or NaN.
  Comparisons, the unary minus and truthiness are exact on doubles and are defined on
  these values. The operations that round or overflow (\<^verbatim>\<open>+\<close>, \<^verbatim>\<open>-\<close>, \<^verbatim>\<open>*\<close>,
  \<^verbatim>\<open>/\<close>, \<^verbatim>\<open>Math.log2\<close>, \<^verbatim>\<open>Math.sqrt\<close>) are not defined here: the calculator
  takes them as a parameter, a record of the six operations, which stands for the
  arithmetic of the JavaScript engine.
\<close>

datatype jsnum = Fin real | NegZero | PInf | NInf | NaN

record arith =
  fadd :: "jsnum \<Rightarrow> jsnum \<Rightarrow> jsnum"
  fsub :: "jsnum \<Rightarrow> jsnum \<Rightarrow> jsnum"
  fmul :: "jsnum \<Rightarrow> jsnum \<Rightarrow> jsnum"
  fdiv :: "jsnum \<Rightarrow> jsnum \<Rightarrow> jsnum"
  flog2 :: "jsnum \<Rightarrow> jsnum"
  fsqrt :: "jsnum \<Rightarrow> jsnum"

text \<open>
  The place of a number in the order of the comparisons: none for NaN, both zeros at the
  same place.
\<close>

fun order_key :: "jsnum \<Rightarrow> (int \<times> real) option" where
  "order_key (Fin a) = Some (0, a)"
| "order_key NegZero = Some (0, 0)"
| "order_key PInf = Some (1, 0)"
| "order_key NInf = Some (- 1, 0)"
| "order_key NaN = None"

text \<open>\<^verbatim>\<open>a < b\<close> and \<^verbatim>\<open>a == b\<close> on numbers: false when an operand is NaN.\<close>

definition jlt :: "jsnum \<Rightarrow> jsnum \<Rightarrow> bool" where
  "jlt a b =
     (case (order_key a, order_key b) of
        (Some (i, x), Some (j, y)) \<Rightarrow> i < j \<or> (i = j \<and> x < y)
      | _ \<Rightarrow> False)"

definition jeq :: "jsnum \<Rightarrow> jsnum \<Rightarrow> bool" where
  "jeq a b = (order_key a \<noteq> None \<and> order_key a = order_key b)"

definition jle :: "jsnum \<Rightarrow> jsnum \<Rightarrow> bool" where
  "jle a b = (jlt a b \<or> jeq a b)"

definition jgt :: "jsnum \<Rightarrow> jsnum \<Rightarrow> bool" where
  "jgt a b = jlt b a"

definition jge :: "jsnum \<Rightarrow> jsnum \<Rightarrow> bool" where
  "jge a b = jle b a"

text \<open>
  The two decimal literals of the calculator. A decimal literal denotes the double
  nearest to the decimal: \<^verbatim>\<open>0.11\<close> is \<open>7926335344172073 / 2 ^ 56\<close>, a little more than
  11/100, and \<^verbatim>\<open>1.1\<close> is \<open>2476979795053773 / 2 ^ 51\<close>.
\<close>

abbreviation literal_0_11 :: jsnum where
  "literal_0_11 \<equiv> Fin (7926335344172073 / 2 ^ 56)"

abbreviation literal_1_1 :: jsnum where
  "literal_1_1 \<equiv> Fin (2476979795053773 / 2 ^ 51)"

text \<open>The unary minus changes the sign and nothing else.\<close>

fun jneg :: "jsnum \<Rightarrow> jsnum" where
  "jneg (Fin a) = (if a = 0 then NegZero else Fin (- a))"
| "jneg NegZero = Fin 0"
| "jneg PInf = NInf"
| "jneg NInf = PInf"
| "jneg NaN = NaN"

text \<open>
  Truthiness of a \<^verbatim>\<open>number | null | undefined\<close>: null, undefined, the two zeros and
  NaN are falsy.
\<close>

definition truthy :: "jsnum option \<Rightarrow> bool" where
  "truthy v =
     (case v of None \<Rightarrow> False | Some x \<Rightarrow> x \<noteq> Fin 0 \<and> x \<noteq> NegZero \<and> x \<noteq> NaN)"

section \<open>Strings\<close>

text \<open>
  A JavaScript string is a sequence of UTF-16 code units, here integers. \<open>str\<close>
  turns a literal of ASCII characters into its code units.
\<close>

type_synonym jsstring = "int list"

definition str :: "string \<Rightarrow> jsstring" where
  "str s = map of_char s"

text \<open>The Greek letters beta, epsilon and Delta and the subscript two.\<close>

definition str_beta :: jsstring where
  "str_beta = [0x03B2]"

definition str_epsilon :: jsstring where
  "str_epsilon = [0x03B5]"

definition str_sub2 :: jsstring where
  "str_sub2 = [0x2082]"

definition str_Delta :: jsstring where
  "str_Delta = [0x0394]"

text \<open>\<^verbatim>\<open>parts.join(sep)\<close>\<close>

fun join :: "jsstring \<Rightarrow> jsstring list \<Rightarrow> jsstring" where
  "join sep [] = []"
| "join sep [x] = x"
| "join sep (x # y # zs) = x @ sep @ join sep (y # zs)"

section \<open>The data model\<close>

text \<open>
  \<^verbatim>\<open>ProvenanceEntry\<close> and the two sections of \<^verbatim>\<open>QKDNormalizedV1\<close> that the
  calculator reads. An optional or nullable field is an \<open>option\<close>: \<open>None\<close> stands
  for both \<^verbatim>\<open>null\<close> and \<^verbatim>\<open>undefined\<close>, which \<^verbatim>\<open>== null\<close> and \<^verbatim>\<open>?.\<close> do not
  tell apart. The sections \<^verbatim>\<open>meta\<close>, \<^verbatim>\<open>link\<close>, \<^verbatim>\<open>detector\<close>, \<^verbatim>\<open>dwdm\<close>,
  \<^verbatim>\<open>optics\<close> and \<^verbatim>\<open>notes\<close> are read by no function modelled here and are left out.
\<close>

record ProvenanceEntry =
  field :: jsstring
  span :: "(jsnum \<times> jsnum) option"
  snippet :: jsstring
  confidence_score :: "jsnum option"
  top_3_alternatives :: "jsstring list option"

record security =
  epsilon :: "jsnum option"
  epsilon_sec :: "jsnum option"
  epsilon_cor :: "jsnum option"
  qber_total :: "jsnum option"
  sifted_bits :: "jsnum option"
  sifted_key_rate_bps :: "jsnum option"
  basis_reconciliation :: "jsstring option"
  authentication :: "jsstring option"
  post_processing :: "bool option"

record dv_specific =
  ec_efficiency_beta :: "jsnum option"

record QKDNormalizedV1 =
  security :: "security option"
  dv_specific :: "dv_specific option"
  provenance :: "ProvenanceEntry list option"

datatype trace_value = TNum jsnum | TStr jsstring

record SKRTraceEntry =
  step :: jsstring
  entry_value :: trace_value
  formula :: "jsstring option"

record FiniteKeyCalculation =
  equation :: jsstring
  inputs :: "(jsstring \<times> jsnum) list"
  intermediates :: "(jsstring \<times> jsnum) list"
  R_secure_bps :: "jsnum option"
  error :: "jsstring option"
  trace :: "SKRTraceEntry list"

section \<open>The finite-key calculator\<close>

text \<open>
  \<^verbatim>\<open>calculateSecureSKR_deterministic\<close>. The \<^verbatim>\<open>trace\<close> array that \<^verbatim>\<open>addTrace\<close>
  pushes to is passed along explicitly; a \<^verbatim>\<open>throw\<close> inside the \<^verbatim>\<open>try\<close> block is the
  left injection of a sum, paired with the trace at the moment of the throw. \<open>ar\<close> is
  the arithmetic of the engine.
\<close>

datatype thrown = Error jsstring

definition equation_text :: jsstring where
  "equation_text = str ''R_secure_bps = (S/N) * [N * (1 - h'' @ str_sub2
     @ str ''(Q)) - (N * h'' @ str_sub2 @ str ''(Q) * '' @ str_beta @ str '') - ''
     @ str_Delta @ str '']''"

definition addTrace ::
  "SKRTraceEntry list \<Rightarrow> jsstring \<Rightarrow> jsnum \<Rightarrow> jsstring option \<Rightarrow> SKRTraceEntry list" where
  "addTrace tr s v f = tr @ [\<lparr>step = s, entry_value = TNum v, formula = f\<rparr>]"

text \<open>Lines 182 to 186: the single epsilon stands in for both missing epsilons.\<close>

definition epsilon_fallback ::
  "jsnum option \<Rightarrow> jsnum option \<Rightarrow> jsnum option \<Rightarrow> SKRTraceEntry list
     \<Rightarrow> jsnum option \<times> jsnum option \<times> SKRTraceEntry list" where
  "epsilon_fallback single_eps eps_sec eps_cor tr =
     (case single_eps of
        None \<Rightarrow> (eps_sec, eps_cor, tr)
      | Some e \<Rightarrow>
          if truthy (Some e) \<and> eps_sec = None \<and> eps_cor = None
          then (Some e, Some e,
                addTrace tr (str ''Epsilon'') e
                  (Some (str ''Used single epsilon for both sec/cor'')))
          else (eps_sec, eps_cor, tr))"

text \<open>Lines 188 to 191: the default error-correction efficiency.\<close>

definition beta_default ::
  "jsnum option \<Rightarrow> SKRTraceEntry list \<Rightarrow> jsnum \<times> SKRTraceEntry list" where
  "beta_default beta tr =
     (case beta of
        None \<Rightarrow> (literal_1_1,
                 addTrace tr (str ''EC Efficiency ('' @ str_beta @ str '')'')
                   literal_1_1 (Some (str ''Default value assumed'')))
      | Some b \<Rightarrow> (b, tr))"

text \<open>Lines 193 to 198: the names of the required values that are still null.\<close>

definition missing_fields ::
  "jsnum option \<Rightarrow> jsnum option \<Rightarrow> jsnum option \<Rightarrow> jsnum option \<Rightarrow> jsnum option
     \<Rightarrow> jsstring list" where
  "missing_fields S_bps Q_raw N eps_sec eps_cor =
     (if S_bps = None then [str ''security.sifted_key_rate_bps''] else [])
   @ (if Q_raw = None then [str ''security.qber_total''] else [])
   @ (if N = None then [str ''security.sifted_bits''] else [])
   @ (if eps_sec = None then [str ''security.epsilon_sec (or epsilon)''] else [])
   @ (if eps_cor = None then [str ''security.epsilon_cor (or epsilon)''] else [])"

definition missing_message :: "jsstring list \<Rightarrow> jsstring" where
  "missing_message missing =
     str ''Input validation failed: Missing required fields: ''
       @ join (str '', '') missing @ str ''.''"

definition threshold_message :: "(jsnum \<Rightarrow> jsstring) \<Rightarrow> jsnum \<Rightarrow> jsstring" where
  "threshold_message toStr Q_raw =
     str ''QBER ('' @ toStr Q_raw
       @ str '') exceeds theoretical security limit for BB84 (0.11). Secure key rate is zero.''"

definition h2 :: "arith \<Rightarrow> jsnum \<Rightarrow> jsnum" where
  "h2 ar q =
     (if jle q (Fin 0) \<or> jge q (Fin 1) then Fin 0
      else fsub ar (fmul ar (jneg q) (flog2 ar q))
                   (fmul ar (fsub ar (Fin 1) q) (flog2 ar (fsub ar (Fin 1) q))))"

type_synonym returned = "(jsstring \<times> jsnum) list \<times> (jsstring \<times> jsnum) list \<times> jsnum"

text \<open>
  Lines 174 to 191: the values read from the record, after the two fallbacks, and the
  trace recorded while resolving them. \<^verbatim>\<open>data.security?.x\<close> is \<open>Option.bind\<close>.
\<close>

definition resolve_inputs ::
  "QKDNormalizedV1 \<Rightarrow>
     jsnum option \<times> jsnum option \<times> jsnum \<times> jsnum option \<times> jsnum option \<times> jsnum option
       \<times> SKRTraceEntry list" where
  "resolve_inputs data =
     (let S_bps = Option.bind (security data) sifted_key_rate_bps;
          Q_raw = Option.bind (security data) qber_total;
          beta = Option.bind (dv_specific data) ec_efficiency_beta;
          N = Option.bind (security data) sifted_bits;
          eps_sec = Option.bind (security data) epsilon_sec;
          eps_cor = Option.bind (security data) epsilon_cor;
          single_eps = Option.bind (security data) epsilon;
          (eps_sec, eps_cor, tr) = epsilon_fallback single_eps eps_sec eps_cor [];
          (beta, tr) = beta_default beta tr
      in (S_bps, Q_raw, beta, N, eps_sec, eps_cor, tr))"

text \<open>Lines 204 to 209: the six resolved inputs are traced.\<close>

definition trace_inputs ::
  "SKRTraceEntry list \<Rightarrow> jsnum \<Rightarrow> jsnum \<Rightarrow> jsnum \<Rightarrow> jsnum \<Rightarrow> jsnum \<Rightarrow> jsnum
     \<Rightarrow> SKRTraceEntry list" where
  "trace_inputs tr S_bps Q_raw beta N eps_sec eps_cor =
     (let tr = addTrace tr (str ''Sifted Rate (S)'') S_bps (Some (str ''Input''));
          tr = addTrace tr (str ''QBER (Q)'') Q_raw (Some (str ''Input''));
          tr = addTrace tr (str ''EC Efficiency ('' @ str_beta @ str '')'') beta
                 (Some (str ''Input or Default''));
          tr = addTrace tr (str ''Block Size (N)'') N (Some (str ''Input''));
          tr = addTrace tr (str_epsilon @ str ''_sec'') eps_sec (Some (str ''Input''))
      in addTrace tr (str_epsilon @ str ''_cor'') eps_cor (Some (str ''Input'')))"

text \<open>
  Lines 204 to 242, entered with every required value present. \<open>toStr\<close> is the
  conversion of a number to text that the template literal of the threshold message
  applies to \<^verbatim>\<open>Q_raw\<close>.
\<close>

definition secure_rate ::
  "arith \<Rightarrow> (jsnum \<Rightarrow> jsstring) \<Rightarrow> SKRTraceEntry list \<Rightarrow> jsnum \<Rightarrow> jsnum \<Rightarrow> jsnum \<Rightarrow> jsnum
     \<Rightarrow> jsnum \<Rightarrow> jsnum \<Rightarrow> SKRTraceEntry list \<times> (thrown + returned)" where
  "secure_rate ar toStr tr S_bps Q_raw beta N eps_sec eps_cor =
     (let tr = trace_inputs tr S_bps Q_raw beta N eps_sec eps_cor
      in if jgt Q_raw literal_0_11
         then (tr, Inl (Error (threshold_message toStr Q_raw)))
         else
           (let h2_Q = h2 ar Q_raw;
                tr = addTrace tr (str ''h'' @ str_sub2 @ str ''(Q)'') h2_Q
                       (Some (str ''-Q*log'' @ str_sub2 @ str ''(Q) - (1-Q)*log''
                              @ str_sub2 @ str ''(1-Q)''));
                leakage_ec_bits = fmul ar (fmul ar N h2_Q) beta;
                tr = addTrace tr (str ''Leak_EC'') leakage_ec_bits
                       (Some (str ''N * h'' @ str_sub2 @ str ''(Q) * '' @ str_beta));
                finite_penalty_bits =
                  fadd ar
                    (fmul ar (Fin 2) (flog2 ar (fdiv ar (Fin 1) eps_cor)))
                    (fmul ar
                       (fmul ar (Fin 4)
                          (flog2 ar (fdiv ar (Fin 1) (fmul ar (Fin 2) eps_sec))))
                       (fsqrt ar (fmul ar (fmul ar N Q_raw) (fsub ar (Fin 1) Q_raw))));
                tr = addTrace tr (str_Delta @ str '' (Penalty)'') finite_penalty_bits
                       (Some (str ''Finite-size penalty term''));
                R_secure_bits =
                  fsub ar (fsub ar (fmul ar N (fsub ar (Fin 1) h2_Q)) leakage_ec_bits)
                    finite_penalty_bits;
                tr = addTrace tr (str ''R_secure_bits'') R_secure_bits
                       (Some (str ''N*(1 - h'' @ str_sub2 @ str ''(Q)) - Leak_EC - ''
                              @ str_Delta));
                R0 = fmul ar (fdiv ar R_secure_bits N) S_bps;
                R = (if jlt R0 (Fin 0) then Fin 0 else R0);
                tr = addTrace tr (str ''R_secure_bps'') R
                       (Some (str ''(R_secure_bits / N) * S_bps (clamped to 0)''))
            in (tr,
                Inr ([(str ''S_bps'', S_bps), (str ''Q'', Q_raw), (str ''beta'', beta),
                      (str ''N'', N), (str ''eps_sec'', eps_sec),
                      (str ''eps_cor'', eps_cor)],
                     [(str ''h2_Q'', h2_Q), (str ''leakage_ec_bits'', leakage_ec_bits),
                      (str ''finite_penalty_bits'', finite_penalty_bits)],
                     R))))"

text \<open>
  The \<^verbatim>\<open>try\<close> block, lines 174 to 242. After the check of \<^verbatim>\<open>missing.length\<close> the
  five required values are present; the \<open>case\<close> that reads them has the same throw in
  its other branch, which is never taken (lemma \<open>missing_fields_Nil_iff\<close>).
\<close>

definition try_block ::
  "arith \<Rightarrow> (jsnum \<Rightarrow> jsstring) \<Rightarrow> QKDNormalizedV1
     \<Rightarrow> SKRTraceEntry list \<times> (thrown + returned)" where
  "try_block ar toStr data =
     (case resolve_inputs data of
        (S_bps, Q_raw, beta, N, eps_sec, eps_cor, tr) \<Rightarrow>
          (let missing = missing_fields S_bps Q_raw N eps_sec eps_cor
           in if 0 < length missing then (tr, Inl (Error (missing_message missing)))
              else
                (case (S_bps, Q_raw, N, eps_sec, eps_cor) of
                   (Some S, Some Q, Some n, Some es, Some ec) \<Rightarrow>
                     secure_rate ar toStr tr S Q beta n es ec
                 | _ \<Rightarrow> (tr, Inl (Error (missing_message missing))))))"

text \<open>The function: the \<^verbatim>\<open>try\<close> block and its \<^verbatim>\<open>catch\<close>.\<close>

definition calculateSecureSKR_deterministic ::
  "arith \<Rightarrow> (jsnum \<Rightarrow> jsstring) \<Rightarrow> QKDNormalizedV1 \<Rightarrow> FiniteKeyCalculation" where
  "calculateSecureSKR_deterministic ar toStr data =
     (case try_block ar toStr data of
        (tr, Inr (ins, mids, R)) \<Rightarrow>
          \<lparr>equation = equation_text, inputs = ins, intermediates = mids,
           R_secure_bps = Some R, error = None, trace = tr\<rparr>
      | (tr, Inl (Error message)) \<Rightarrow>
          \<lparr>equation = equation_text, inputs = [], intermediates = [],
           R_secure_bps = None, error = Some message, trace = tr\<rparr>)"

section \<open>String operations of the pre-parser\<close>

text \<open>
  White space, which \<^verbatim>\<open>\s\<close> matches and \<^verbatim>\<open>trim\<close> removes, is the white space and
  the line terminators of ECMAScript: tab, line feed, vertical tab, form feed, carriage
  return, space, no-break space, U+1680, U+2000 to U+200A, U+2028, U+2029, U+202F,
  U+205F, U+3000 and U+FEFF. The line terminators, which \<^verbatim>\<open>.\<close> does not match, are
  line feed, carriage return, U+2028 and U+2029.
\<close>

definition is_space :: "int \<Rightarrow> bool" where
  "is_space c =
     (c \<in> set [0x09, 0x0A, 0x0B, 0x0C, 0x0D, 0x20, 0xA0, 0x1680, 0x2028, 0x2029, 0x202F,
               0x205F, 0x3000, 0xFEFF]
      \<or> (0x2000 \<le> c \<and> c \<le> 0x200A))"

definition is_line_terminator :: "int \<Rightarrow> bool" where
  "is_line_terminator c = (c \<in> set [0x0A, 0x0D, 0x2028, 0x2029])"

definition trim :: "jsstring \<Rightarrow> jsstring" where
  "trim s = rev (dropWhile is_space (rev (dropWhile is_space s)))"

text \<open>\<^verbatim>\<open>s.split(c)\<close> for a separator of one code unit: never the empty array.\<close>

fun split_on :: "int \<Rightarrow> jsstring \<Rightarrow> jsstring list" where
  "split_on c [] = [[]]"
| "split_on c (x # xs) =
     (if x = c then [] # split_on c xs
      else (case split_on c xs of [] \<Rightarrow> [[x]] | l # ls \<Rightarrow> (x # l) # ls))"

definition startsWith :: "jsstring \<Rightarrow> jsstring \<Rightarrow> bool" where
  "startsWith s p = (take (length p) s = p)"

definition endsWith :: "jsstring \<Rightarrow> jsstring \<Rightarrow> bool" where
  "endsWith s p = (length p \<le> length s \<and> drop (length s - length p) s = p)"

text \<open>\<^verbatim>\<open>s.includes(c)\<close> for a string \<^verbatim>\<open>c\<close> of one code unit.\<close>

definition includes_char :: "jsstring \<Rightarrow> int \<Rightarrow> bool" where
  "includes_char s c = (c \<in> set s)"

text \<open>\<^verbatim>\<open>s.replace(/\s+/g, '_')\<close>: every maximal run of white space becomes one underscore.\<close>

function replace_spaces :: "jsstring \<Rightarrow> jsstring" where
  "replace_spaces [] = []"
| "replace_spaces (c # cs) =
     (if is_space c then 0x5F # replace_spaces (dropWhile is_space cs)
      else c # replace_spaces cs)"
  by pat_completeness auto
termination
  by (relation "measure length") (auto simp: less_Suc_eq_le length_dropWhile_le)

text \<open>\<^verbatim>\<open>s.replace(/_/g, '')\<close>\<close>

definition remove_underscores :: "jsstring \<Rightarrow> jsstring" where
  "remove_underscores s = filter (\<lambda>c. c \<noteq> 0x5F) s"

subsection \<open>The regular expression of a line\<close>

text \<open>
  \<^verbatim>\<open>/^\s*([^:]+):\s*(.+)\s*$/\<close> is matched by backtracking: each quantifier is greedy,
  so it tries the longest run first and gives code units back one at a time when the rest
  of the pattern fails. \<open>rx_star P s\<close> lists the ways in which \<^verbatim>\<open>P*\<close> can match a prefix
  of \<open>s\<close>, as the pair of the prefix and what is left, in the order in which the matcher
  tries them; \<open>rx_plus P s\<close> does so for \<^verbatim>\<open>P+\<close>. The first complete match gives the two
  groups. The pattern has no flag: it works on code units, \<^verbatim>\<open>$\<close> is the end of the
  string, and \<^verbatim>\<open>[^:]\<close> is every code unit but the colon.
\<close>

definition rx_star :: "(int \<Rightarrow> bool) \<Rightarrow> jsstring \<Rightarrow> (jsstring \<times> jsstring) list" where
  "rx_star P s = map (\<lambda>k. (take k s, drop k s)) (rev [0 ..< Suc (length (takeWhile P s))])"

definition rx_plus :: "(int \<Rightarrow> bool) \<Rightarrow> jsstring \<Rightarrow> (jsstring \<times> jsstring) list" where
  "rx_plus P s = map (\<lambda>k. (take k s, drop k s)) (rev [1 ..< Suc (length (takeWhile P s))])"

definition colon :: "jsstring \<Rightarrow> jsstring list" where
  "colon s = (case s of [] \<Rightarrow> [] | c # r \<Rightarrow> if c = 0x3A then [r] else [])"

definition key_value_matches :: "jsstring \<Rightarrow> (jsstring \<times> jsstring) list" where
  "key_value_matches line =
     [(k, v).
        (w1, r1) \<leftarrow> rx_star is_space line,
        (k, r2) \<leftarrow> rx_plus (\<lambda>c. c \<noteq> 0x3A) r1,
        r3 \<leftarrow> colon r2,
        (w2, r4) \<leftarrow> rx_star is_space r3,
        (v, r5) \<leftarrow> rx_plus (\<lambda>c. \<not> is_line_terminator c) r4,
        (w3, r6) \<leftarrow> rx_star is_space r5,
        r6 = []]"

definition match_key_value :: "jsstring \<Rightarrow> (jsstring \<times> jsstring) option" where
  "match_key_value line = (case key_value_matches line of [] \<Rightarrow> None | m # _ \<Rightarrow> Some m)"

section \<open>The pre-parser\<close>

definition keyMap :: "(jsstring \<times> jsstring) list" where
  "keyMap = map (\<lambda>(k, p). (str k, str p))
     [(''vendor'', ''meta.vendor''), (''model'', ''meta.model''),
      (''run_id'', ''meta.run_id''), (''protocol'', ''meta.protocol''),
      (''link_type'', ''meta.link_type''), (''profile'', ''meta.profile''),
      (''firmware_version'', ''meta.firmware_version''),
      (''timestamp'', ''meta.timestamp''), (''distance_km'', ''link.distance_km''),
      (''fiber_loss_db'', ''link.fiber_loss_dB''),
      (''alpha_db_per_km'', ''link.alpha_dB_per_km''), (''epsilon'', ''security.epsilon''),
      (''qber_total'', ''security.qber_total''),
      (''sifted_bits'', ''security.sifted_bits''),
      (''sifted_key_rate_bps'', ''security.sifted_key_rate_bps''),
      (''basis_reconciliation'', ''security.basis_reconciliation''),
      (''authentication'', ''security.authentication''),
      (''count_rate_mcps'', ''detector.count_rate_Mcps''),
      (''detector_count_rate_mcps'', ''detector.count_rate_Mcps''),
      (''max_mcps'', ''detector.max_Mcps''), (''detector_max_mcps'', ''detector.max_Mcps'')]"

text \<open>
  \<^verbatim>\<open>keyMap[key]\<close>. \<^verbatim>\<open>keyMap\<close> is an object literal, so a key that it does not hold
  itself is looked up in \<^verbatim>\<open>Object.prototype\<close>, whose properties all have a value that
  is truthy and is not a string. The keys reach the lookup after \<^verbatim>\<open>toLowerCase\<close>,
  which leaves no capital letter of ASCII, so that of these names only
  \<^verbatim>\<open>constructor\<close> and \<^verbatim>\<open>__proto__\<close> can be met.
\<close>

datatype key_lookup = OwnPath jsstring | Inherited | Undefined

definition object_prototype_names :: "jsstring list" where
  "object_prototype_names = map str
     [''constructor'', ''__proto__'', ''hasOwnProperty'', ''isPrototypeOf'',
      ''propertyIsEnumerable'', ''toLocaleString'', ''toString'', ''valueOf'',
      ''__defineGetter__'', ''__defineSetter__'', ''__lookupGetter__'',
      ''__lookupSetter__'']"

definition keyMap_lookup :: "jsstring \<Rightarrow> key_lookup" where
  "keyMap_lookup key =
     (case map_of keyMap key of
        Some path \<Rightarrow> OwnPath path
      | None \<Rightarrow> if key \<in> set object_prototype_names then Inherited else Undefined)"

text \<open>
  The object \<^verbatim>\<open>preParsedData\<close>. Every path of \<^verbatim>\<open>keyMap\<close> is a section and a leaf, and
  no section is a leaf, so that the nested objects that \<^verbatim>\<open>setNestedValue\<close> builds are
  given by the map from the dotted paths to the leaves.
\<close>

datatype jsvalue = JNum jsnum | JStr jsstring

record PartialRecord =
  leaves :: "jsstring \<rightharpoonup> jsvalue"
  partial_provenance :: "ProvenanceEntry list"

text \<open>
  \<^verbatim>\<open>setNestedValue\<close>. \<open>Number\<close> is JavaScript's conversion of a string to a number,
  taken as a parameter.
\<close>

definition setNestedValue ::
  "(jsstring \<Rightarrow> jsnum) \<Rightarrow> (jsstring \<rightharpoonup> jsvalue) \<Rightarrow> jsstring \<Rightarrow> jsstring
     \<Rightarrow> (jsstring \<rightharpoonup> jsvalue)" where
  "setNestedValue Number obj path v =
     (let cleanedValue = remove_underscores v;
          numValue = Number cleanedValue
      in obj(path \<mapsto> (if numValue \<noteq> NaN \<and> trim cleanedValue \<noteq> [] then JNum numValue
                       else JStr v)))"

record scan_state =
  preParsedData :: PartialRecord
  remainingLines :: "jsstring list"

text \<open>
  The body of the \<^verbatim>\<open>forEach\<close>, lines 64 to 80. \<open>toLowerCase\<close> is JavaScript's
  \<^verbatim>\<open>String.prototype.toLowerCase\<close>, which follows the case mappings of Unicode; it is
  taken as a parameter.
\<close>

definition scan_line ::
  "(jsstring \<Rightarrow> jsstring) \<Rightarrow> (jsstring \<Rightarrow> jsnum) \<Rightarrow> jsstring \<Rightarrow> scan_state
     \<Rightarrow> thrown + scan_state" where
  "scan_line toLowerCase Number line st =
     (case match_key_value line of
        Some (m1, m2) \<Rightarrow>
          (let key = replace_spaces (toLowerCase (trim m1));
               v = trim m2
           in case keyMap_lookup key of
                OwnPath path \<Rightarrow>
                  Inr (st\<lparr>preParsedData :=
                    \<lparr>leaves = setNestedValue Number (leaves (preParsedData st)) path v,
                     partial_provenance = partial_provenance (preParsedData st) @
                       [\<lparr>field = path, span = None, snippet = trim line,
                         confidence_score = Some (Fin 1), top_3_alternatives = None\<rparr>]\<rparr>\<rparr>)
              | Inherited \<Rightarrow> Inl (Error (str ''path.split is not a function''))
              | Undefined \<Rightarrow> Inr (st\<lparr>remainingLines := remainingLines st @ [line]\<rparr>))
      | None \<Rightarrow> Inr (st\<lparr>remainingLines := remainingLines st @ [line]\<rparr>))"

fun scan_lines ::
  "(jsstring \<Rightarrow> jsstring) \<Rightarrow> (jsstring \<Rightarrow> jsnum) \<Rightarrow> jsstring list \<Rightarrow> scan_state
     \<Rightarrow> thrown + scan_state" where
  "scan_lines toLowerCase Number [] st = Inr st"
| "scan_lines toLowerCase Number (line # ls) st =
     (case scan_line toLowerCase Number line st of
        Inl e \<Rightarrow> Inl e
      | Inr st' \<Rightarrow> scan_lines toLowerCase Number ls st')"

definition empty_record :: PartialRecord where
  "empty_record = \<lparr>leaves = Map.empty, partial_provenance = []\<rparr>"

text \<open>The guard of line 36.\<close>

definition looks_like_json_or_csv :: "jsstring \<Rightarrow> bool" where
  "looks_like_json_or_csv logs =
     (let ls = split_on 0x0A logs;
          trimmedLogs = trim logs
      in (startsWith trimmedLogs (str ''{'') \<and> endsWith trimmedLogs (str ''}''))
         \<or> (startsWith trimmedLogs (str ''['') \<and> endsWith trimmedLogs (str '']''))
         \<or> (case ls of [] \<Rightarrow> False | l # _ \<Rightarrow> includes_char l 0x2C))"

definition preParseWithRegex ::
  "(jsstring \<Rightarrow> jsstring) \<Rightarrow> (jsstring \<Rightarrow> jsnum) \<Rightarrow> jsstring
     \<Rightarrow> thrown + (PartialRecord \<times> jsstring)" where
  "preParseWithRegex toLowerCase Number logs =
     (if looks_like_json_or_csv logs then Inr (empty_record, logs)
      else
        (case scan_lines toLowerCase Number (split_on 0x0A logs)
                \<lparr>preParsedData = empty_record, remainingLines = []\<rparr> of
           Inl e \<Rightarrow> Inl e
         | Inr st \<Rightarrow> Inr (preParsedData st, trim (join [0x0A] (remainingLines st)))))"

section \<open>Reconciling the provenance\<close>

text \<open>
  Lines 118 to 120 of \<^verbatim>\<open>normalizeLogs\<close>, as a function of the two
  \<^verbatim>\<open>_provenance\<close> arrays: that of the pre-parsed data and that of the record returned
  by the language model.
\<close>

definition reconcile_provenance ::
  "ProvenanceEntry list option \<Rightarrow> ProvenanceEntry list option \<Rightarrow> ProvenanceEntry list" where
  "reconcile_provenance preParsed llm =
     (let pre = (case preParsed of None \<Rightarrow> [] | Some ps \<Rightarrow> ps);
          preParsedFields = set (map field pre);
          uniqueLlmProvenance =
            filter (\<lambda>p. field p \<notin> preParsedFields) (case llm of None \<Rightarrow> [] | Some ps \<Rightarrow> ps)
      in pre @ uniqueLlmProvenance)"

section \<open>The secure rate as the specification writes it\<close>


definition spec_Delta :: "arith \<Rightarrow> jsnum \<Rightarrow> jsnum \<Rightarrow> jsnum \<Rightarrow> jsnum \<Rightarrow> jsnum" where
  "spec_Delta ar N Q eps_sec eps_cor =
     fadd ar
       (fmul ar (Fin 2) (flog2 ar (fdiv ar (Fin 1) eps_cor)))
       (fmul ar (fmul ar (Fin 4) (flog2 ar (fdiv ar (Fin 1) (fmul ar (Fin 2) eps_sec))))
                (fsqrt ar (fmul ar (fmul ar N Q) (fsub ar (Fin 1) Q))))"

definition spec_max0 :: "jsnum \<Rightarrow> jsnum" where
  "spec_max0 x = (if jlt x (Fin 0) then Fin 0 else x)"


section \<open>The lines of the pre-parser as the specification speaks of them\<close>

text \<open>
  A line is recognised when it matches the pattern and its key, trimmed, in lower case
  and with underscores for white space, is a key of the table; \<open>field_of_line\<close> is then
  the path of the table. \<open>inherited_key\<close> holds of a matching line whose key is found
  in \<^verbatim>\<open>Object.prototype\<close> instead. \<open>entry_of_line\<close> is the provenance entry that line 72
  pushes for a recognised line.
\<close>

definition field_of_line :: "(jsstring \<Rightarrow> jsstring) \<Rightarrow> jsstring \<Rightarrow> jsstring option" where
  "field_of_line toLowerCase line =
     (case match_key_value line of
        None \<Rightarrow> None
      | Some (m1, m2) \<Rightarrow>
          (case keyMap_lookup (replace_spaces (toLowerCase (trim m1))) of
             OwnPath path \<Rightarrow> Some path
           | Inherited \<Rightarrow> None
           | Undefined \<Rightarrow> None))"

definition inherited_key :: "(jsstring \<Rightarrow> jsstring) \<Rightarrow> jsstring \<Rightarrow> bool" where
  "inherited_key toLowerCase line =
     (case match_key_value line of
        None \<Rightarrow> False
      | Some (m1, m2) \<Rightarrow> keyMap_lookup (replace_spaces (toLowerCase (trim m1))) = Inherited)"

definition entry_of_line ::
  "(jsstring \<Rightarrow> jsstring) \<Rightarrow> jsstring \<Rightarrow> ProvenanceEntry option" where
  "entry_of_line toLowerCase line =
     map_option
       (\<lambda>path. \<lparr>field = path, span = None, snippet = trim line,
                confidence_score = Some (Fin 1), top_3_alternatives = None\<rparr>)
       (field_of_line toLowerCase line)"

section \<open>Examples\<close>

subsection \<open>An arithmetic without rounding\<close>

text \<open>
  The arithmetic is a parameter of the calculator and the theorems about the calculator
  hold for every arithmetic. The examples need one. The arithmetic below computes on the
  reals and treats the zeros, the infinities and NaN as IEEE 754 does. It never rounds and
  never overflows, so it is not the arithmetic of doubles; it gives what doubles give
  where the exact result of every operation is a double, as it is on the operands of the
  examples that state a computed number.
\<close>

fun finite_of :: "jsnum \<Rightarrow> real option" where
  "finite_of (Fin a) = Some a"
| "finite_of NegZero = Some 0"
| "finite_of PInf = None"
| "finite_of NInf = None"
| "finite_of NaN = None"

text \<open>The sign bit.\<close>

fun negative :: "jsnum \<Rightarrow> bool" where
  "negative (Fin a) = (a < 0)"
| "negative NegZero = True"
| "negative PInf = False"
| "negative NInf = True"
| "negative NaN = False"

definition signed_zero :: "bool \<Rightarrow> jsnum" where
  "signed_zero neg = (if neg then NegZero else Fin 0)"

definition signed_inf :: "bool \<Rightarrow> jsnum" where
  "signed_inf neg = (if neg then NInf else PInf)"

definition fin_result :: "bool \<Rightarrow> real \<Rightarrow> jsnum" where
  "fin_result neg r = (if r = 0 then signed_zero neg else Fin r)"

definition exact_add :: "jsnum \<Rightarrow> jsnum \<Rightarrow> jsnum" where
  "exact_add a b =
     (if a = NaN \<or> b = NaN then NaN
      else case (finite_of a, finite_of b) of
             (Some x, Some y) \<Rightarrow> fin_result (negative a \<and> negative b) (x + y)
           | (Some x, None) \<Rightarrow> b
           | (None, Some y) \<Rightarrow> a
           | (None, None) \<Rightarrow> if a = b then a else NaN)"

definition exact_sub :: "jsnum \<Rightarrow> jsnum \<Rightarrow> jsnum" where
  "exact_sub a b = exact_add a (jneg b)"

definition exact_mul :: "jsnum \<Rightarrow> jsnum \<Rightarrow> jsnum" where
  "exact_mul a b =
     (if a = NaN \<or> b = NaN then NaN
      else case (finite_of a, finite_of b) of
             (Some x, Some y) \<Rightarrow> fin_result (negative a \<noteq> negative b) (x * y)
           | (Some x, None) \<Rightarrow>
               if x = 0 then NaN else signed_inf (negative a \<noteq> negative b)
           | (None, Some y) \<Rightarrow>
               if y = 0 then NaN else signed_inf (negative a \<noteq> negative b)
           | (None, None) \<Rightarrow> signed_inf (negative a \<noteq> negative b))"

definition exact_div :: "jsnum \<Rightarrow> jsnum \<Rightarrow> jsnum" where
  "exact_div a b =
     (if a = NaN \<or> b = NaN then NaN
      else case (finite_of a, finite_of b) of
             (Some x, Some y) \<Rightarrow>
               if y = 0
               then (if x = 0 then NaN else signed_inf (negative a \<noteq> negative b))
               else fin_result (negative a \<noteq> negative b) (x / y)
           | (Some x, None) \<Rightarrow> signed_zero (negative a \<noteq> negative b)
           | (None, Some y) \<Rightarrow> signed_inf (negative a \<noteq> negative b)
           | (None, None) \<Rightarrow> NaN)"

definition exact_log2 :: "jsnum \<Rightarrow> jsnum" where
  "exact_log2 a =
     (case finite_of a of
        Some x \<Rightarrow> if x = 0 then NInf else if x < 0 then NaN else Fin (log 2 x)
      | None \<Rightarrow> if a = PInf then PInf else NaN)"

definition exact_sqrt :: "jsnum \<Rightarrow> jsnum" where
  "exact_sqrt a =
     (if a = NegZero then NegZero
      else case finite_of a of
             Some x \<Rightarrow> if x < 0 then NaN else Fin (sqrt x)
           | None \<Rightarrow> if a = PInf then PInf else NaN)"

definition example_arith :: arith where
  "example_arith =
     \<lparr>fadd = exact_add, fsub = exact_sub, fmul = exact_mul, fdiv = exact_div,
      flog2 = exact_log2, fsqrt = exact_sqrt\<rparr>"

subsection \<open>Numbers\<close>

text \<open>
  The doubles that the decimals 0.18, 0.02 and 1e-9 of the sample logs and the decimal
  0.110001 denote, and the double that follows \<^verbatim>\<open>0.11\<close>, which JavaScript prints as
  0.11000000000000001.
\<close>

abbreviation double_0_18 :: jsnum where
  "double_0_18 \<equiv> Fin (3242591731706757 / 2 ^ 54)"

abbreviation double_0_02 :: jsnum where
  "double_0_02 \<equiv> Fin (5764607523034235 / 2 ^ 58)"

abbreviation double_1e_9 :: jsnum where
  "double_1e_9 \<equiv> Fin (4835703278458517 / 2 ^ 82)"

abbreviation double_0_110001 :: jsnum where
  "double_0_110001 \<equiv> Fin (7926407401766111 / 2 ^ 56)"

abbreviation double_0_11_next :: jsnum where
  "double_0_11_next \<equiv> Fin (7926335344172074 / 2 ^ 56)"

subsection \<open>The other parameters\<close>

text \<open>
  The conversion of a number to text: JavaScript's conversion on the three numbers that
  the examples convert.
\<close>

definition example_toStr :: "jsnum \<Rightarrow> jsstring" where
  "example_toStr x =
     (if x = double_0_18 then str ''0.18''
      else if x = double_0_110001 then str ''0.110001''
      else if x = double_0_11_next then str ''0.11000000000000001'' else str ''?'')"

text \<open>
  \<^verbatim>\<open>toLowerCase\<close> on the strings of the examples, whose letters are ASCII letters.
\<close>

definition example_toLowerCase :: "jsstring \<Rightarrow> jsstring" where
  "example_toLowerCase s = map (\<lambda>c. if 0x41 \<le> c \<and> c \<le> 0x5A then c + 0x20 else c) s"

subsection \<open>Records\<close>

text \<open>
  A record of the shape of the samples of \<^verbatim>\<open>constants.ts\<close>: a single epsilon, no
  \<^verbatim>\<open>epsilon_sec\<close> or \<^verbatim>\<open>epsilon_cor\<close>, no \<^verbatim>\<open>dv_specific\<close>.
\<close>

definition sample_record ::
  "jsnum option \<Rightarrow> jsnum option \<Rightarrow> jsnum option \<Rightarrow> jsnum option \<Rightarrow> QKDNormalizedV1" where
  "sample_record eps Q N S =
     \<lparr>security = Some \<lparr>epsilon = eps, epsilon_sec = None, epsilon_cor = None,
        qber_total = Q, sifted_bits = N, sifted_key_rate_bps = S,
        basis_reconciliation = Some (str ''Cascade''),
        authentication = Some (str ''Wegman-Carter''), post_processing = None\<rparr>,
      dv_specific = None, provenance = None\<rparr>"

text \<open>A record with the two epsilons and the efficiency given, and no single epsilon.\<close>

definition full_record ::
  "jsnum \<Rightarrow> jsnum \<Rightarrow> jsnum \<Rightarrow> jsnum \<Rightarrow> jsnum \<Rightarrow> jsnum \<Rightarrow> QKDNormalizedV1" where
  "full_record es ec beta Q N S =
     \<lparr>security = Some \<lparr>epsilon = None, epsilon_sec = Some es, epsilon_cor = Some ec,
        qber_total = Some Q, sifted_bits = Some N, sifted_key_rate_bps = Some S,
        basis_reconciliation = Some (str ''Cascade''),
        authentication = Some (str ''Wegman-Carter''), post_processing = None\<rparr>,
      dv_specific = Some \<lparr>ec_efficiency_beta = Some beta\<rparr>, provenance = None\<rparr>"

text \<open>The two trace entries of the fallbacks.\<close>

definition epsilon_entry :: "jsnum \<Rightarrow> SKRTraceEntry" where
  "epsilon_entry e =
     \<lparr>step = str ''Epsilon'', entry_value = TNum e,
      formula = Some (str ''Used single epsilon for both sec/cor'')\<rparr>"

definition beta_default_entry :: SKRTraceEntry where
  "beta_default_entry =
     \<lparr>step = str ''EC Efficiency ('' @ str_beta @ str '')'',
      entry_value = TNum literal_1_1, formula = Some (str ''Default value assumed'')\<rparr>"

section \<open>Properties of the numbers and of the strings\<close>

lemma str_eq_iff [simp]: "str a = str b \<longleftrightarrow> a = b"
  by (simp add: str_def inj_map_eq_map [OF inj_of_char])

lemma str_Nil_iff [simp]: "str a = [] \<longleftrightarrow> a = []"
  by (simp add: str_def)

lemma str_append: "str (a @ b) = str a @ str b"
  by (simp add: str_def)

text \<open>
  Each of these doubles is within half a unit in the last place of its decimal: the unit
  is \<open>2 ^ -56\<close> from 1/16 to 1/8, \<open>2 ^ -52\<close> from 1 to 2, \<open>2 ^ -55\<close> from 1/8 to 1/4,
  \<open>2 ^ -58\<close> from 1/64 to 1/32 and \<open>2 ^ -82\<close> from \<open>2 ^ -30\<close> to \<open>2 ^ -29\<close>.
\<close>

lemma literals_nearest:
  "literal_0_11 = Fin a \<Longrightarrow> \<bar>a - 11 / 100\<bar> < 1 / 2 ^ 57"
  "literal_1_1 = Fin b \<Longrightarrow> \<bar>b - 11 / 10\<bar> < 1 / 2 ^ 53"
  "double_0_18 = Fin c \<Longrightarrow> \<bar>c - 18 / 100\<bar> < 1 / 2 ^ 56"
  "double_0_02 = Fin d \<Longrightarrow> \<bar>d - 2 / 100\<bar> < 1 / 2 ^ 59"
  "double_1e_9 = Fin e \<Longrightarrow> \<bar>e - 1 / 10 ^ 9\<bar> < 1 / 2 ^ 83"
  "double_0_110001 = Fin f \<Longrightarrow> \<bar>f - 110001 / 10 ^ 6\<bar> < 1 / 2 ^ 57"
  by auto



text \<open>
  \<open>spec_max0\<close> is the greater of zero and its argument in the order of the numbers: NaN
  for NaN, and otherwise a number that is at least zero, at least the argument, and
  equal to one of the two.
\<close>

lemma spec_max0_NaN: "spec_max0 x = NaN \<longleftrightarrow> x = NaN"
  by (cases x) (auto simp: spec_max0_def jlt_def)

lemma spec_max0_greatest:
  assumes "x \<noteq> NaN"
  shows "jle (Fin 0) (spec_max0 x)" and "jle x (spec_max0 x)"
    and "jeq (spec_max0 x) x \<or> jeq (spec_max0 x) (Fin 0)"
  using assms by (cases x; auto simp: spec_max0_def jle_def jlt_def jeq_def)+


section \<open>Properties of the calculator\<close>

subsection \<open>The three outcomes\<close>

lemma missing_fields_Nil_iff:
  "missing_fields S Q n es ec = [] \<longleftrightarrow>
     S \<noteq> None \<and> Q \<noteq> None \<and> n \<noteq> None \<and> es \<noteq> None \<and> ec \<noteq> None"
  by (simp add: missing_fields_def)

lemma try_block_missing:
  assumes "resolve_inputs data = (S, Q, beta, n, es, ec, tr)"
    and "missing_fields S Q n es ec \<noteq> []"
  shows "try_block ar toStr data
           = (tr, Inl (Error (missing_message (missing_fields S Q n es ec))))"
  using assms by (simp add: try_block_def)

lemma try_block_present:
  assumes "resolve_inputs data = (Some S, Some Q, beta, Some n, Some es, Some ec, tr)"
  shows "try_block ar toStr data = secure_rate ar toStr tr S Q beta n es ec"
  using assms by (simp add: try_block_def missing_fields_def)

lemma calc_missing:
  assumes "resolve_inputs data = (S, Q, beta, n, es, ec, tr)"
    and "missing_fields S Q n es ec \<noteq> []"
  shows "calculateSecureSKR_deterministic ar toStr data =
           \<lparr>equation = equation_text, inputs = [], intermediates = [], R_secure_bps = None,
            error = Some (missing_message (missing_fields S Q n es ec)), trace = tr\<rparr>"
  by (simp add: calculateSecureSKR_deterministic_def try_block_missing [OF assms])

lemma calc_threshold:
  assumes "resolve_inputs data = (Some S, Some Q, beta, Some n, Some es, Some ec, tr)"
    and "jgt Q literal_0_11"
  shows "calculateSecureSKR_deterministic ar toStr data =
           \<lparr>equation = equation_text, inputs = [], intermediates = [], R_secure_bps = None,
            error = Some (threshold_message toStr Q),
            trace = trace_inputs tr S Q beta n es ec\<rparr>"
  using assms(2)
  by (simp add: calculateSecureSKR_deterministic_def try_block_present [OF assms(1)]
      secure_rate_def)

lemma calc_success:
  assumes "resolve_inputs data = (Some S, Some Q, beta, Some n, Some es, Some ec, tr)"
    and "\<not> jgt Q literal_0_11"
  shows "error (calculateSecureSKR_deterministic ar toStr data) = None"
    and "R_secure_bps (calculateSecureSKR_deterministic ar toStr data) =
           Some (spec_max0
             (fmul ar
                (fdiv ar
                   (fsub ar
                      (fsub ar (fmul ar n (fsub ar (Fin 1) (h2 ar Q)))
                               (fmul ar (fmul ar n (h2 ar Q)) beta))
                      (spec_Delta ar n Q es ec))
                   n)
                S))"
    and "inputs (calculateSecureSKR_deterministic ar toStr data) =
           [(str ''S_bps'', S), (str ''Q'', Q), (str ''beta'', beta), (str ''N'', n),
            (str ''eps_sec'', es), (str ''eps_cor'', ec)]"
    and "intermediates (calculateSecureSKR_deterministic ar toStr data) =
           [(str ''h2_Q'', h2 ar Q),
            (str ''leakage_ec_bits'', fmul ar (fmul ar n (h2 ar Q)) beta),
            (str ''finite_penalty_bits'', spec_Delta ar n Q es ec)]"
    and "take (length (trace_inputs tr S Q beta n es ec))
           (trace (calculateSecureSKR_deterministic ar toStr data))
         = trace_inputs tr S Q beta n es ec"
    and "take (length tr) (trace (calculateSecureSKR_deterministic ar toStr data)) = tr"
  using assms(2)
  by (simp_all add: calculateSecureSKR_deterministic_def try_block_present [OF assms(1)]
      secure_rate_def Let_def spec_max0_def spec_Delta_def trace_inputs_def addTrace_def)

lemma calc_failure_empty:
  "error (calculateSecureSKR_deterministic ar toStr data) \<noteq> None \<Longrightarrow>
     inputs (calculateSecureSKR_deterministic ar toStr data) = []
   \<and> intermediates (calculateSecureSKR_deterministic ar toStr data) = []
   \<and> R_secure_bps (calculateSecureSKR_deterministic ar toStr data) = None"
  by (auto simp: calculateSecureSKR_deterministic_def
      split: prod.splits sum.splits thrown.splits)

lemma calc_null_iff_error:
  "(R_secure_bps (calculateSecureSKR_deterministic ar toStr data) = None)
     = (error (calculateSecureSKR_deterministic ar toStr data) \<noteq> None)"
  by (auto simp: calculateSecureSKR_deterministic_def
      split: prod.splits sum.splits thrown.splits)

lemma map_entry_value_trace_inputs:
  "map entry_value (drop (length tr) (trace_inputs tr S Q beta N es ec))
     = [TNum S, TNum Q, TNum beta, TNum N, TNum es, TNum ec]"
  by (simp add: trace_inputs_def addTrace_def)

lemma take_trace_inputs: "take (length tr) (trace_inputs tr S Q beta N es ec) = tr"
  by (simp add: trace_inputs_def addTrace_def)

lemma resolve_sample:
  "resolve_inputs (sample_record (Some (Fin e)) Q N S) =
     (S, Q, literal_1_1, N,
      if e = 0 then None else Some (Fin e), if e = 0 then None else Some (Fin e),
      (if e = 0 then [] else [epsilon_entry (Fin e)]) @ [beta_default_entry])"
  by (simp add: resolve_inputs_def sample_record_def epsilon_fallback_def beta_default_def
      truthy_def addTrace_def beta_default_entry_def epsilon_entry_def)

lemma resolve_full:
  "resolve_inputs (full_record es ec beta Q N S)
     = (Some S, Some Q, beta, Some N, Some es, Some ec, [])"
  by (simp add: resolve_inputs_def full_record_def epsilon_fallback_def beta_default_def)

subsection \<open>The secure rate\<close>



subsection \<open>The security threshold\<close>

text \<open>
  Claim C2. When the required inputs are resolved, the calculator fails with the message
  that the QBER exceeds the security limit exactly when \<open>Q > 0.11\<close>: then the message
  cites \<open>Q\<close>, the secure rate is null and the trace is the trace of the resolution followed
  by the six input entries; otherwise there is no error and the entropy is computed. In
  the witness \<open>Q = 0.11\<close> passes, and the double that follows 0.11 and \<open>Q = 0.110001\<close>
  fail.
\<close>

theorem threshold_exceeded_iff:
  assumes "resolve_inputs data = (Some S, Some Q, beta, Some N, Some es, Some ec, tr)"
  shows "if jgt Q literal_0_11
         then error (calculateSecureSKR_deterministic ar toStr data)
                = Some (str ''QBER ('' @ toStr Q @
                    str '') exceeds theoretical security limit for BB84 (0.11). Secure key rate is zero.'')
            \<and> R_secure_bps (calculateSecureSKR_deterministic ar toStr data) = None
            \<and> trace (calculateSecureSKR_deterministic ar toStr data)
                = trace_inputs tr S Q beta N es ec
         else error (calculateSecureSKR_deterministic ar toStr data) = None
            \<and> R_secure_bps (calculateSecureSKR_deterministic ar toStr data) \<noteq> None
            \<and> (str ''h2_Q'', h2 ar Q)
                \<in> set (intermediates (calculateSecureSKR_deterministic ar toStr data))"
proof (cases "jgt Q literal_0_11")
  case True
  then show ?thesis
    using calc_threshold [OF assms True, of ar toStr] by (simp add: threshold_message_def)
next
  case False
  then show ?thesis
    using calc_success(1,2,4) [OF assms False, of ar toStr] by simp
qed

theorem threshold_exceeded_iff_witness:
  "error (calculateSecureSKR_deterministic example_arith example_toStr
      (sample_record (Some double_1e_9) (Some literal_0_11)
         (Some (Fin 1600000)) (Some (Fin 50000)))) = None
 \<and> error (calculateSecureSKR_deterministic example_arith example_toStr
      (sample_record (Some double_1e_9) (Some double_0_11_next)
         (Some (Fin 1600000)) (Some (Fin 50000))))
     = Some (str ''QBER (0.11000000000000001) exceeds theoretical security limit for BB84 (0.11). Secure key rate is zero.'')
 \<and> R_secure_bps (calculateSecureSKR_deterministic example_arith example_toStr
      (sample_record (Some double_1e_9) (Some double_0_11_next)
         (Some (Fin 1600000)) (Some (Fin 50000)))) = None
 \<and> error (calculateSecureSKR_deterministic example_arith example_toStr
      (sample_record (Some double_1e_9) (Some double_0_110001)
         (Some (Fin 1600000)) (Some (Fin 50000))))
     = Some (str ''QBER (0.110001) exceeds theoretical security limit for BB84 (0.11). Secure key rate is zero.'')"
proof -
  have a: "resolve_inputs (sample_record (Some double_1e_9) (Some literal_0_11)
             (Some (Fin 1600000)) (Some (Fin 50000)))
     = (Some (Fin 50000), Some literal_0_11, literal_1_1, Some (Fin 1600000),
        Some double_1e_9, Some double_1e_9,
        [epsilon_entry double_1e_9, beta_default_entry])"
    by (simp add: resolve_sample)
  have b: "resolve_inputs (sample_record (Some double_1e_9)
             (Some double_0_11_next) (Some (Fin 1600000)) (Some (Fin 50000)))
     = (Some (Fin 50000), Some double_0_11_next, literal_1_1,
        Some (Fin 1600000), Some double_1e_9, Some double_1e_9,
        [epsilon_entry double_1e_9, beta_default_entry])"
    by (simp add: resolve_sample)
  have c: "resolve_inputs (sample_record (Some double_1e_9)
             (Some double_0_110001) (Some (Fin 1600000)) (Some (Fin 50000)))
     = (Some (Fin 50000), Some double_0_110001, literal_1_1,
        Some (Fin 1600000), Some double_1e_9, Some double_1e_9,
        [epsilon_entry double_1e_9, beta_default_entry])"
    by (simp add: resolve_sample)
  show ?thesis
    using threshold_exceeded_iff [OF a, of example_arith example_toStr]
      threshold_exceeded_iff [OF b, of example_arith example_toStr]
      threshold_exceeded_iff [OF c, of example_arith example_toStr]
    by (simp add: jgt_def jlt_def example_toStr_def flip: str_append)
qed

subsection \<open>Missing fields\<close>

text \<open>
  Claim C3. When one or more of the five required values is still null after the
  fallbacks, the calculator returns a null secure rate, no inputs, and the
  input-validation message, which lists the missing fields separated by commas: each of
  the five names is in the list exactly when its value is null. In particular, when every
  numeric field of the security section is null the message lists all five names.
\<close>

theorem missing_fields_error:
  "(resolve_inputs data = (S, Q, beta, N, es, ec, tr)
      \<and> (S = None \<or> Q = None \<or> N = None \<or> es = None \<or> ec = None)
    \<longrightarrow> R_secure_bps (calculateSecureSKR_deterministic ar toStr data) = None
      \<and> inputs (calculateSecureSKR_deterministic ar toStr data) = []
      \<and> trace (calculateSecureSKR_deterministic ar toStr data) = tr
      \<and> error (calculateSecureSKR_deterministic ar toStr data)
          = Some (str ''Input validation failed: Missing required fields: ''
                  @ join (str '', '') (missing_fields S Q N es ec) @ str ''.'')
      \<and> (str ''security.sifted_key_rate_bps'' \<in> set (missing_fields S Q N es ec))
          = (S = None)
      \<and> (str ''security.qber_total'' \<in> set (missing_fields S Q N es ec)) = (Q = None)
      \<and> (str ''security.sifted_bits'' \<in> set (missing_fields S Q N es ec)) = (N = None)
      \<and> (str ''security.epsilon_sec (or epsilon)'' \<in> set (missing_fields S Q N es ec))
          = (es = None)
      \<and> (str ''security.epsilon_cor (or epsilon)'' \<in> set (missing_fields S Q N es ec))
          = (ec = None))
 \<and> (security data = Some sec \<and> epsilon sec = None \<and> epsilon_sec sec = None
      \<and> epsilon_cor sec = None \<and> qber_total sec = None \<and> sifted_bits sec = None
      \<and> sifted_key_rate_bps sec = None
    \<longrightarrow> R_secure_bps (calculateSecureSKR_deterministic ar toStr data) = None
      \<and> inputs (calculateSecureSKR_deterministic ar toStr data) = []
      \<and> error (calculateSecureSKR_deterministic ar toStr data)
          = Some (str ''Input validation failed: Missing required fields: security.sifted_key_rate_bps, security.qber_total, security.sifted_bits, security.epsilon_sec (or epsilon), security.epsilon_cor (or epsilon).''))"
proof (intro conjI impI)
  assume a: "resolve_inputs data = (S, Q, beta, N, es, ec, tr)
      \<and> (S = None \<or> Q = None \<or> N = None \<or> es = None \<or> ec = None)"
  then have m: "missing_fields S Q N es ec \<noteq> []"
    by (auto simp: missing_fields_Nil_iff)
  note c = calc_missing [OF a [THEN conjunct1] m, of ar toStr]
  show "R_secure_bps (calculateSecureSKR_deterministic ar toStr data) = None"
    by (simp add: c)
  show "inputs (calculateSecureSKR_deterministic ar toStr data) = []"
    by (simp add: c)
  show "trace (calculateSecureSKR_deterministic ar toStr data) = tr"
    by (simp add: c)
  show "error (calculateSecureSKR_deterministic ar toStr data)
          = Some (str ''Input validation failed: Missing required fields: ''
                  @ join (str '', '') (missing_fields S Q N es ec) @ str ''.'')"
    by (simp add: c missing_message_def)
  show "(str ''security.sifted_key_rate_bps'' \<in> set (missing_fields S Q N es ec))
          = (S = None)"
    by (simp add: missing_fields_def)
  show "(str ''security.qber_total'' \<in> set (missing_fields S Q N es ec)) = (Q = None)"
    by (simp add: missing_fields_def)
  show "(str ''security.sifted_bits'' \<in> set (missing_fields S Q N es ec)) = (N = None)"
    by (simp add: missing_fields_def)
  show "(str ''security.epsilon_sec (or epsilon)'' \<in> set (missing_fields S Q N es ec))
          = (es = None)"
    by (simp add: missing_fields_def)
  show "(str ''security.epsilon_cor (or epsilon)'' \<in> set (missing_fields S Q N es ec))
          = (ec = None)"
    by (simp add: missing_fields_def)
next
  assume b: "security data = Some sec \<and> epsilon sec = None \<and> epsilon_sec sec = None
      \<and> epsilon_cor sec = None \<and> qber_total sec = None \<and> sifted_bits sec = None
      \<and> sifted_key_rate_bps sec = None"
  obtain bt tr' where r: "resolve_inputs data = (None, None, bt, None, None, None, tr')"
    using b
    by (cases "Option.bind (dv_specific data) ec_efficiency_beta")
       (simp_all add: resolve_inputs_def epsilon_fallback_def beta_default_def)
  have m: "missing_fields None None None None None \<noteq> []"
    by (simp add: missing_fields_def)
  note c = calc_missing [OF r m, of ar toStr]
  show "R_secure_bps (calculateSecureSKR_deterministic ar toStr data) = None"
    by (simp add: c)
  show "inputs (calculateSecureSKR_deterministic ar toStr data) = []"
    by (simp add: c)
  show "error (calculateSecureSKR_deterministic ar toStr data)
          = Some (str ''Input validation failed: Missing required fields: security.sifted_key_rate_bps, security.qber_total, security.sifted_bits, security.epsilon_sec (or epsilon), security.epsilon_cor (or epsilon).'')"
    by (simp add: c missing_message_def missing_fields_def flip: str_append)
qed

theorem missing_fields_error_witness:
  "calculateSecureSKR_deterministic example_arith example_toStr
     (sample_record None None None None)
     = \<lparr>equation = equation_text, inputs = [], intermediates = [], R_secure_bps = None,
        error = Some (str ''Input validation failed: Missing required fields: security.sifted_key_rate_bps, security.qber_total, security.sifted_bits, security.epsilon_sec (or epsilon), security.epsilon_cor (or epsilon).''),
        trace = [beta_default_entry]\<rparr>"
proof -
  let ?d = "sample_record None None None None"
  let ?r = "calculateSecureSKR_deterministic example_arith example_toStr ?d"
  have r: "resolve_inputs ?d
      = (None, None, literal_1_1, None, None, None, [beta_default_entry])"
    by (simp add: resolve_inputs_def sample_record_def epsilon_fallback_def
        beta_default_def addTrace_def beta_default_entry_def)
  have s: "security ?d = Some \<lparr>epsilon = None, epsilon_sec = None, epsilon_cor = None,
        qber_total = None, sifted_bits = None, sifted_key_rate_bps = None,
        basis_reconciliation = Some (str ''Cascade''),
        authentication = Some (str ''Wegman-Carter''), post_processing = None\<rparr>"
    by (simp add: sample_record_def)
  note t = missing_fields_error [where data = ?d and ar = example_arith
      and toStr = example_toStr and S = None and Q = None and N = None and es = None
      and ec = None and beta = "literal_1_1" and tr = "[beta_default_entry]"]
  have 1: "R_secure_bps ?r = None \<and> inputs ?r = [] \<and> trace ?r = [beta_default_entry]"
    using t [THEN conjunct1] r by simp
  have 2: "error ?r
          = Some (str ''Input validation failed: Missing required fields: security.sifted_key_rate_bps, security.qber_total, security.sifted_bits, security.epsilon_sec (or epsilon), security.epsilon_cor (or epsilon).'')"
    using t [THEN conjunct2, of "the (security ?d)"] s by simp
  have 3: "equation ?r = equation_text \<and> intermediates ?r = []"
    using calc_failure_empty [of example_arith example_toStr ?d] 2
    by (auto simp: calculateSecureSKR_deterministic_def
        split: prod.splits sum.splits thrown.splits)
  show ?thesis
    using 1 2 3 by (cases ?r) simp
qed

subsection \<open>Failures are captured\<close>

text \<open>
  Claim C4, as stated, counts among the failures that set the error and a null rate the
  arithmetic ones, such as the square root of a negative number. The calculator does not:
  with a QBER of \<open>-0.5\<close> the number under the square root is negative, the square root
  is NaN, and the result is a secure rate of NaN with no error.
\<close>

theorem arithmetic_failure_counterexample:
  "error (calculateSecureSKR_deterministic example_arith example_toStr
     (full_record (Fin (1 / 2)) (Fin 1) literal_1_1 (Fin (- 1 / 2)) (Fin 1500000)
        (Fin 180000))) = None
   \<and> R_secure_bps (calculateSecureSKR_deterministic example_arith example_toStr
       (full_record (Fin (1 / 2)) (Fin 1) literal_1_1 (Fin (- 1 / 2)) (Fin 1500000)
          (Fin 180000)))
     = Some NaN
   \<and> fsqrt example_arith
       (fmul example_arith (fmul example_arith (Fin 1500000) (Fin (- 1 / 2)))
          (fsub example_arith (Fin 1) (Fin (- 1 / 2))))
     = NaN"
proof -
  let ?d = "full_record (Fin (1 / 2)) (Fin 1) literal_1_1 (Fin (- 1 / 2))
              (Fin 1500000) (Fin 180000)"
  have r: "resolve_inputs ?d =
      (Some (Fin 180000), Some (Fin (- 1 / 2)), literal_1_1, Some (Fin 1500000),
       Some (Fin (1 / 2)), Some (Fin 1), [])"
    by (rule resolve_full)
  have q: "\<not> jgt (Fin (- 1 / 2)) literal_0_11"
    by (simp add: jgt_def jlt_def)
  have s: "fsqrt example_arith
       (fmul example_arith (fmul example_arith (Fin 1500000) (Fin (- 1 / 2)))
          (fsub example_arith (Fin 1) (Fin (- 1 / 2)))) = NaN"
    by (simp add: example_arith_def exact_add_def exact_sub_def exact_mul_def
        exact_sqrt_def fin_result_def signed_zero_def)
  have d: "spec_Delta example_arith (Fin 1500000) (Fin (- 1 / 2)) (Fin (1 / 2)) (Fin 1)
      = NaN"
    unfolding spec_Delta_def s
    by (simp add: example_arith_def exact_add_def exact_mul_def)
  have v: "spec_max0 (fmul example_arith (fdiv example_arith
      (fsub example_arith x NaN) (Fin 1500000)) (Fin 180000)) = NaN" for x
    by (simp add: example_arith_def exact_add_def exact_sub_def exact_mul_def
        exact_div_def spec_max0_def jlt_def)
  show ?thesis
    using calc_success(1,2) [OF r q, of example_arith example_toStr] s
    unfolding d v by simp
qed

text \<open>
  Claim C4, amended. The calculator returns a result for every record and fails in two
  ways only, a missing required value and a QBER above 0.11. Each failure is a throw that
  is caught: its message is the error of the result, the secure rate is null, the inputs
  and the intermediates are empty, and the trace is the trace at the moment of the throw,
  which is the trace of the resolution after a missing value and that trace followed by
  the six input entries after the threshold. In every other case, also when an operation
  gives NaN or an infinity, there is no error and the secure rate is not null. The
  entries of the resolution are at the head of the trace in every case.
\<close>

theorem failures_captured:
  assumes "resolve_inputs data = (S, Q, beta, N, es, ec, tr)"
  shows "take (length tr) (trace (calculateSecureSKR_deterministic ar toStr data)) = tr
       \<and> (R_secure_bps (calculateSecureSKR_deterministic ar toStr data) = None)
           = (error (calculateSecureSKR_deterministic ar toStr data) \<noteq> None)
       \<and> (error (calculateSecureSKR_deterministic ar toStr data) \<noteq> None)
           = (missing_fields S Q N es ec \<noteq> []
              \<or> (\<exists>q. Q = Some q \<and> jgt q literal_0_11))
       \<and> ((error (calculateSecureSKR_deterministic ar toStr data) = None
            \<and> R_secure_bps (calculateSecureSKR_deterministic ar toStr data) \<noteq> None)
          \<or> (missing_fields S Q N es ec \<noteq> []
            \<and> calculateSecureSKR_deterministic ar toStr data =
               \<lparr>equation = equation_text, inputs = [], intermediates = [],
                R_secure_bps = None,
                error = Some (missing_message (missing_fields S Q N es ec)),
                trace = tr\<rparr>)
          \<or> (\<exists>s q n e1 e2.
                S = Some s \<and> Q = Some q \<and> N = Some n \<and> es = Some e1 \<and> ec = Some e2
              \<and> jgt q literal_0_11
              \<and> calculateSecureSKR_deterministic ar toStr data =
                 \<lparr>equation = equation_text, inputs = [], intermediates = [],
                  R_secure_bps = None, error = Some (threshold_message toStr q),
                  trace = trace_inputs tr s q beta n e1 e2\<rparr>))"
proof (cases "missing_fields S Q N es ec = []")
  case False
  note c = calc_missing [OF assms False, of ar toStr]
  show ?thesis
    using False by (simp add: c)
next
  case True
  then obtain s q n e1 e2
    where v: "S = Some s" "Q = Some q" "N = Some n" "es = Some e1" "ec = Some e2"
    by (auto simp: missing_fields_Nil_iff)
  show ?thesis
  proof (cases "jgt q literal_0_11")
    case g: True
    note c = calc_threshold [OF assms [unfolded v] g, of ar toStr]
    show ?thesis
      using g True v by (simp add: c take_trace_inputs)
  next
    case g: False
    note c = calc_success(1,6) [OF assms [unfolded v] g, of ar toStr]
    have "R_secure_bps (calculateSecureSKR_deterministic ar toStr data) \<noteq> None"
      using c(1) by (simp add: calc_null_iff_error)
    then show ?thesis
      using g True v c by simp
  qed
qed

theorem failures_captured_witness:
  "error (calculateSecureSKR_deterministic example_arith example_toStr
      (sample_record (Some double_1e_9) (Some double_0_18)
         (Some (Fin 1600000)) (Some (Fin 50000))))
     = Some (str ''QBER (0.18) exceeds theoretical security limit for BB84 (0.11). Secure key rate is zero.'')
 \<and> R_secure_bps (calculateSecureSKR_deterministic example_arith example_toStr
      (sample_record (Some double_1e_9) (Some double_0_18)
         (Some (Fin 1600000)) (Some (Fin 50000)))) = None
 \<and> take 2 (trace (calculateSecureSKR_deterministic example_arith example_toStr
      (sample_record (Some double_1e_9) (Some double_0_18)
         (Some (Fin 1600000)) (Some (Fin 50000)))))
     = [epsilon_entry double_1e_9, beta_default_entry]"
proof -
  let ?d = "sample_record (Some double_1e_9) (Some double_0_18)
              (Some (Fin 1600000)) (Some (Fin 50000))"
  let ?r = "calculateSecureSKR_deterministic example_arith example_toStr ?d"
  let ?m = "str ''QBER (0.18) exceeds theoretical security limit for BB84 (0.11). Secure key rate is zero.''"
  have r: "resolve_inputs ?d =
      (Some (Fin 50000), Some double_0_18, literal_1_1, Some (Fin 1600000),
       Some double_1e_9, Some double_1e_9,
       [epsilon_entry double_1e_9, beta_default_entry])"
    by (simp add: resolve_sample)
  have g: "jgt double_0_18 literal_0_11"
    by (simp add: jgt_def jlt_def)
  have m: "threshold_message example_toStr double_0_18 = ?m"
    by (simp add: threshold_message_def example_toStr_def flip: str_append)
  have n: "missing_fields (Some (Fin 50000)) (Some double_0_18) (Some (Fin 1600000))
             (Some double_1e_9) (Some double_1e_9) = []"
    by (simp add: missing_fields_def)
  note t = failures_captured [OF r, of example_arith example_toStr]
  have e: "error ?r \<noteq> None"
    using t [THEN conjunct2, THEN conjunct2, THEN conjunct1] g by blast
  have 3: "R_secure_bps ?r = None"
    using t [THEN conjunct2, THEN conjunct1] e by blast
  have "\<exists>q. Some double_0_18 = Some q \<and> jgt q literal_0_11
          \<and> error ?r = Some (threshold_message example_toStr q)"
    using t [THEN conjunct2, THEN conjunct2, THEN conjunct2] e unfolding n
    by (elim disjE exE conjE) simp_all
  then have 1: "error ?r = Some ?m"
    unfolding m [symmetric] by blast
  have 2: "take (length [epsilon_entry double_1e_9, beta_default_entry])
             (trace ?r) = [epsilon_entry double_1e_9, beta_default_entry]"
    by (rule t [THEN conjunct1])
  have 4: "length [epsilon_entry double_1e_9, beta_default_entry] = 2"
    by simp
  show ?thesis
    using 1 2 3 unfolding 4 by (intro conjI)
qed

subsection \<open>The inputs of a failed result\<close>

text \<open>
  Claim C10. A result with an error has no inputs and no intermediates. This holds for
  the threshold failure too, which comes after the six inputs were resolved and traced:
  the resolved values are then in the trace, after the entries of the resolution, and not
  in the inputs.
\<close>

theorem failure_reports_no_inputs:
  "(error (calculateSecureSKR_deterministic ar toStr data) \<noteq> None
    \<longrightarrow> inputs (calculateSecureSKR_deterministic ar toStr data) = []
      \<and> intermediates (calculateSecureSKR_deterministic ar toStr data) = [])
 \<and> (resolve_inputs data = (Some S, Some Q, beta, Some N, Some es, Some ec, tr)
      \<and> jgt Q literal_0_11
    \<longrightarrow> error (calculateSecureSKR_deterministic ar toStr data) \<noteq> None
      \<and> inputs (calculateSecureSKR_deterministic ar toStr data) = []
      \<and> intermediates (calculateSecureSKR_deterministic ar toStr data) = []
      \<and> take (length tr) (trace (calculateSecureSKR_deterministic ar toStr data)) = tr
      \<and> map entry_value
           (drop (length tr) (trace (calculateSecureSKR_deterministic ar toStr data)))
          = [TNum S, TNum Q, TNum beta, TNum N, TNum es, TNum ec])"
proof (intro conjI impI)
  assume "error (calculateSecureSKR_deterministic ar toStr data) \<noteq> None"
  from calc_failure_empty [OF this]
  show "inputs (calculateSecureSKR_deterministic ar toStr data) = []"
    and "intermediates (calculateSecureSKR_deterministic ar toStr data) = []"
    by simp_all
next
  assume a: "resolve_inputs data = (Some S, Some Q, beta, Some N, Some es, Some ec, tr)
      \<and> jgt Q literal_0_11"
  note c = calc_threshold [OF a [THEN conjunct1] a [THEN conjunct2], of ar toStr]
  show "error (calculateSecureSKR_deterministic ar toStr data) \<noteq> None"
    and "inputs (calculateSecureSKR_deterministic ar toStr data) = []"
    and "intermediates (calculateSecureSKR_deterministic ar toStr data) = []"
    by (simp_all add: c)
  show "take (length tr) (trace (calculateSecureSKR_deterministic ar toStr data)) = tr"
    by (simp add: c take_trace_inputs)
  show "map entry_value
           (drop (length tr) (trace (calculateSecureSKR_deterministic ar toStr data)))
          = [TNum S, TNum Q, TNum beta, TNum N, TNum es, TNum ec]"
    by (simp add: c map_entry_value_trace_inputs)
qed

theorem failure_reports_no_inputs_witness:
  "error (calculateSecureSKR_deterministic example_arith example_toStr
      (sample_record (Some double_1e_9) (Some double_0_18)
         (Some (Fin 1600000)) (Some (Fin 50000)))) \<noteq> None
 \<and> inputs (calculateSecureSKR_deterministic example_arith example_toStr
      (sample_record (Some double_1e_9) (Some double_0_18)
         (Some (Fin 1600000)) (Some (Fin 50000)))) = []
 \<and> intermediates (calculateSecureSKR_deterministic example_arith example_toStr
      (sample_record (Some double_1e_9) (Some double_0_18)
         (Some (Fin 1600000)) (Some (Fin 50000)))) = []
 \<and> map entry_value (drop 2 (trace (calculateSecureSKR_deterministic example_arith
      example_toStr
      (sample_record (Some double_1e_9) (Some double_0_18)
         (Some (Fin 1600000)) (Some (Fin 50000))))))
     = [TNum (Fin 50000), TNum double_0_18, TNum literal_1_1, TNum (Fin 1600000),
        TNum double_1e_9, TNum double_1e_9]"
proof -
  let ?d = "sample_record (Some double_1e_9) (Some double_0_18)
              (Some (Fin 1600000)) (Some (Fin 50000))"
  have r: "resolve_inputs ?d =
      (Some (Fin 50000), Some double_0_18, literal_1_1, Some (Fin 1600000),
       Some double_1e_9, Some double_1e_9,
       [epsilon_entry double_1e_9, beta_default_entry])"
    by (simp add: resolve_sample)
  have g: "jgt double_0_18 literal_0_11"
    by (simp add: jgt_def jlt_def)
  show ?thesis
    using failure_reports_no_inputs [THEN conjunct2, THEN mp, OF conjI, OF r g,
        of example_arith example_toStr]
    by (simp add: numeral_2_eq_2)
qed

subsection \<open>The single epsilon\<close>

text \<open>
  Claim C5, as stated, fails for a single epsilon of zero: it is present, and the two
  epsilons stay null, so that the calculator reports them missing.
\<close>

theorem single_epsilon_zero_counterexample:
  "security (sample_record (Some (Fin 0)) (Some double_0_02) (Some (Fin 900000))
       (Some (Fin 1000000)))
     = Some \<lparr>epsilon = Some (Fin 0), epsilon_sec = None, epsilon_cor = None,
         qber_total = Some double_0_02, sifted_bits = Some (Fin 900000),
         sifted_key_rate_bps = Some (Fin 1000000),
         basis_reconciliation = Some (str ''Cascade''),
         authentication = Some (str ''Wegman-Carter''), post_processing = None\<rparr>
 \<and> resolve_inputs (sample_record (Some (Fin 0)) (Some double_0_02)
       (Some (Fin 900000)) (Some (Fin 1000000)))
     = (Some (Fin 1000000), Some double_0_02, literal_1_1, Some (Fin 900000),
        None, None, [beta_default_entry])
 \<and> error (calculateSecureSKR_deterministic example_arith example_toStr
       (sample_record (Some (Fin 0)) (Some double_0_02) (Some (Fin 900000))
          (Some (Fin 1000000))))
     = Some (str ''Input validation failed: Missing required fields: security.epsilon_sec (or epsilon), security.epsilon_cor (or epsilon).'')"
proof -
  let ?d = "sample_record (Some (Fin 0)) (Some double_0_02) (Some (Fin 900000))
       (Some (Fin 1000000))"
  have r: "resolve_inputs ?d
     = (Some (Fin 1000000), Some double_0_02, literal_1_1, Some (Fin 900000),
        None, None, [beta_default_entry])"
    by (simp add: resolve_sample)
  have m: "missing_fields (Some (Fin 1000000)) (Some double_0_02) (Some (Fin 900000))
             None None \<noteq> []"
    by (simp add: missing_fields_def)
  show ?thesis
    using r calc_missing [OF r m, of example_arith example_toStr]
    by (simp add: sample_record_def missing_fields_def missing_message_def
        flip: str_append)
qed

text \<open>
  Claim C5, amended. When \<^verbatim>\<open>epsilon_sec\<close> and \<^verbatim>\<open>epsilon_cor\<close> are both absent and the
  single epsilon is present and is neither zero nor NaN, both epsilons are the single
  epsilon and the first trace entry notes the substitution. In every other case,
  also when one of the two is present, the two epsilons are as read from the record and no
  trace entry notes a substitution.
\<close>

theorem single_epsilon_fallback:
  assumes "security data = Some sec"
    and "resolve_inputs data = (S, Q, beta, N, es, ec, tr)"
  shows "if epsilon_sec sec = None \<and> epsilon_cor sec = None \<and> truthy (epsilon sec)
         then es = epsilon sec \<and> ec = epsilon sec
            \<and> (\<exists>e. epsilon sec = Some e \<and> e \<noteq> Fin 0 \<and> e \<noteq> NegZero \<and> e \<noteq> NaN
                  \<and> take 1 tr = [epsilon_entry e])
         else es = epsilon_sec sec \<and> ec = epsilon_cor sec
            \<and> str ''Epsilon'' \<notin> set (map step tr)"
proof -
  have n: "str ''Epsilon'' \<noteq> str ''EC Efficiency ('' @ str_beta @ str '')''"
    by (simp add: str_def)
  show ?thesis
    using assms n
    by (cases "epsilon sec"; cases "Option.bind (dv_specific data) ec_efficiency_beta")
       (auto simp: resolve_inputs_def epsilon_fallback_def beta_default_def truthy_def
          addTrace_def epsilon_entry_def)
qed

theorem single_epsilon_fallback_witness:
  "resolve_inputs (sample_record (Some double_1e_9) (Some double_0_02)
       (Some (Fin 900000)) (Some (Fin 1000000)))
     = (Some (Fin 1000000), Some double_0_02, literal_1_1, Some (Fin 900000),
        Some double_1e_9, Some double_1e_9,
        [epsilon_entry double_1e_9, beta_default_entry])
 \<and> truthy (Some double_1e_9)"
proof -
  let ?d = "sample_record (Some double_1e_9) (Some double_0_02)
       (Some (Fin 900000)) (Some (Fin 1000000))"
  have s: "security ?d = Some \<lparr>epsilon = Some double_1e_9, epsilon_sec = None,
         epsilon_cor = None, qber_total = Some double_0_02,
         sifted_bits = Some (Fin 900000), sifted_key_rate_bps = Some (Fin 1000000),
         basis_reconciliation = Some (str ''Cascade''),
         authentication = Some (str ''Wegman-Carter''), post_processing = None\<rparr>"
    by (simp add: sample_record_def)
  have r: "resolve_inputs ?d
     = (Some (Fin 1000000), Some double_0_02, literal_1_1, Some (Fin 900000),
        Some double_1e_9, Some double_1e_9,
        [epsilon_entry double_1e_9, beta_default_entry])"
    by (simp add: resolve_sample)
  show ?thesis
    using single_epsilon_fallback [OF s r] r by (simp add: truthy_def)
qed

section \<open>Properties of the reconciliation\<close>

lemma reconcile_provenance_None:
  "reconcile_provenance None llm = (case llm of None \<Rightarrow> [] | Some ps \<Rightarrow> ps)"
  "reconcile_provenance (Some high) None = high"
  by (simp_all add: reconcile_provenance_def split: option.splits)

lemma reconcile_provenance_Some:
  "reconcile_provenance (Some high) (Some low)
     = high @ filter (\<lambda>p. field p \<notin> set (map field high)) low"
  by (simp add: reconcile_provenance_def)

text \<open>
  Claim C8, as stated, fails when the pre-parsed provenance repeats a field path: two
  keys of the table have the path \<^verbatim>\<open>detector.count_rate_Mcps\<close>, the pre-parser
  pushes an entry for each of the two lines, and both entries are kept.
\<close>

theorem merged_paths_repeat_counterexample:
  "(case preParseWithRegex example_toLowerCase (\<lambda>s. Fin 9)
           (str ''count_rate_Mcps: 9'' @ [0x0A] @ str ''detector_count_rate_Mcps: 9'') of
      Inl e \<Rightarrow> False
    | Inr (pd, rem) \<Rightarrow>
        partial_provenance pd
          = [\<lparr>field = str ''detector.count_rate_Mcps'', span = None,
              snippet = str ''count_rate_Mcps: 9'', confidence_score = Some (Fin 1),
              top_3_alternatives = None\<rparr>,
             \<lparr>field = str ''detector.count_rate_Mcps'', span = None,
              snippet = str ''detector_count_rate_Mcps: 9'', confidence_score = Some (Fin 1),
              top_3_alternatives = None\<rparr>])
 \<and> map field (reconcile_provenance
     (Some [\<lparr>field = str ''detector.count_rate_Mcps'', span = None,
             snippet = str ''count_rate_Mcps: 9'', confidence_score = Some (Fin 1),
             top_3_alternatives = None\<rparr>,
            \<lparr>field = str ''detector.count_rate_Mcps'', span = None,
             snippet = str ''detector_count_rate_Mcps: 9'', confidence_score = Some (Fin 1),
             top_3_alternatives = None\<rparr>])
     (Some []))
   = [str ''detector.count_rate_Mcps'', str ''detector.count_rate_Mcps'']
 \<and> \<not> distinct (map field (reconcile_provenance
     (Some [\<lparr>field = str ''detector.count_rate_Mcps'', span = None,
             snippet = str ''count_rate_Mcps: 9'', confidence_score = Some (Fin 1),
             top_3_alternatives = None\<rparr>,
            \<lparr>field = str ''detector.count_rate_Mcps'', span = None,
             snippet = str ''detector_count_rate_Mcps: 9'', confidence_score = Some (Fin 1),
             top_3_alternatives = None\<rparr>])
     (Some [])))"
proof -
  have "case preParseWithRegex example_toLowerCase (\<lambda>s. Fin 9)
           (str ''count_rate_Mcps: 9'' @ [0x0A] @ str ''detector_count_rate_Mcps: 9'') of
      Inl e \<Rightarrow> False
    | Inr (pd, rem) \<Rightarrow>
        partial_provenance pd
          = [\<lparr>field = str ''detector.count_rate_Mcps'', span = None,
              snippet = str ''count_rate_Mcps: 9'', confidence_score = Some (Fin 1),
              top_3_alternatives = None\<rparr>,
             \<lparr>field = str ''detector.count_rate_Mcps'', span = None,
              snippet = str ''detector_count_rate_Mcps: 9'', confidence_score = Some (Fin 1),
              top_3_alternatives = None\<rparr>]"
    by code_simp
  then show ?thesis
    by (simp add: reconcile_provenance_def)
qed

text \<open>
  Claim C8, amended. The merged provenance is the pre-parsed entries in their order,
  followed by the entries of the other list, in their order, whose field paths do not
  occur among the pre-parsed ones. A field path of a pre-parsed entry occurs in the
  merged list as often as in the pre-parsed list. If neither list repeats a field path
  of its own, every field path occurs at most once in the merged list.
\<close>

theorem merged_provenance:
  "reconcile_provenance (Some high) (Some low)
     = high @ filter (\<lambda>p. field p \<notin> set (map field high)) low
 \<and> (f \<in> set (map field high)
      \<longrightarrow> count_list (map field (reconcile_provenance (Some high) (Some low))) f
          = count_list (map field high) f)
 \<and> (distinct (map field high) \<and> distinct (map field low)
      \<longrightarrow> distinct (map field (reconcile_provenance (Some high) (Some low))))"
proof (intro conjI impI)
  show "reconcile_provenance (Some high) (Some low)
     = high @ filter (\<lambda>p. field p \<notin> set (map field high)) low"
    by (rule reconcile_provenance_Some)
next
  assume f: "f \<in> set (map field high)"
  have "f \<notin> set (map field (filter (\<lambda>p. field p \<notin> set (map field high)) low))"
    using f by (auto simp: image_iff) metis
  then have "count_list (map field (filter (\<lambda>p. field p \<notin> set (map field high)) low)) f = 0"
    by (rule count_list_0_iff [THEN iffD2])
  then show "count_list (map field (reconcile_provenance (Some high) (Some low))) f
          = count_list (map field high) f"
    by (simp add: reconcile_provenance_Some)
next
  assume d: "distinct (map field high) \<and> distinct (map field low)"
  have "set (map field high)
          \<inter> set (map field (filter (\<lambda>p. field p \<notin> set (map field high)) low)) = {}"
    by (auto simp: image_iff)
  then show "distinct (map field (reconcile_provenance (Some high) (Some low)))"
    using d by (simp add: reconcile_provenance_Some distinct_map_filter)
qed

theorem merged_provenance_witness:
  "reconcile_provenance
     (Some [\<lparr>field = str ''security.qber_total'', span = None,
             snippet = str ''qber_total: 0.02'', confidence_score = Some (Fin 1),
             top_3_alternatives = None\<rparr>])
     (Some [\<lparr>field = str ''security.qber_total'', span = None,
             snippet = str ''QBER 2%'', confidence_score = Some (Fin (3 / 4)),
             top_3_alternatives = None\<rparr>,
            \<lparr>field = str ''security.epsilon'', span = None,
             snippet = str ''eps 1e-9'', confidence_score = Some (Fin (7 / 8)),
             top_3_alternatives = None\<rparr>])
   = [\<lparr>field = str ''security.qber_total'', span = None,
       snippet = str ''qber_total: 0.02'', confidence_score = Some (Fin 1),
       top_3_alternatives = None\<rparr>,
      \<lparr>field = str ''security.epsilon'', span = None,
       snippet = str ''eps 1e-9'', confidence_score = Some (Fin (7 / 8)),
       top_3_alternatives = None\<rparr>]
 \<and> distinct (map field (reconcile_provenance
     (Some [\<lparr>field = str ''security.qber_total'', span = None,
             snippet = str ''qber_total: 0.02'', confidence_score = Some (Fin 1),
             top_3_alternatives = None\<rparr>])
     (Some [\<lparr>field = str ''security.qber_total'', span = None,
             snippet = str ''QBER 2%'', confidence_score = Some (Fin (3 / 4)),
             top_3_alternatives = None\<rparr>,
            \<lparr>field = str ''security.epsilon'', span = None,
             snippet = str ''eps 1e-9'', confidence_score = Some (Fin (7 / 8)),
             top_3_alternatives = None\<rparr>])))"
proof -
  let ?h = "[\<lparr>field = str ''security.qber_total'', span = None,
             snippet = str ''qber_total: 0.02'', confidence_score = Some (Fin 1),
             top_3_alternatives = None\<rparr>]"
  let ?l = "[\<lparr>field = str ''security.qber_total'', span = None,
             snippet = str ''QBER 2%'', confidence_score = Some (Fin (3 / 4)),
             top_3_alternatives = None\<rparr>,
            \<lparr>field = str ''security.epsilon'', span = None,
             snippet = str ''eps 1e-9'', confidence_score = Some (Fin (7 / 8)),
             top_3_alternatives = None\<rparr>]"
  note t = merged_provenance [where high = ?h and low = ?l and f = "str ''security.qber_total''"]
  have 1: "reconcile_provenance (Some ?h) (Some ?l)
      = ?h @ filter (\<lambda>p. field p \<notin> set (map field ?h)) ?l"
    by (rule t [THEN conjunct1])
  have 2: "distinct (map field (reconcile_provenance (Some ?h) (Some ?l)))"
    by (rule t [THEN conjunct2, THEN conjunct2, THEN mp]) simp
  show ?thesis
    using 1 2 by simp
qed

section \<open>Properties of the pre-parser\<close>

subsection \<open>The pattern on some lines\<close>

text \<open>
  The two groups of the pattern on lines of the kinds that the samples of
  \<^verbatim>\<open>constants.ts\<close> hold: the key ends at the first colon, the value runs to the end
  of the line and may hold colons, a carriage return at the end is not part of the value,
  and a line with nothing after the colon does not match.
\<close>

lemma match_key_value_examples:
  "match_key_value (str ''vendor: CDOT'') = Some (str ''vendor'', str ''CDOT'')"
  "match_key_value (str ''timestamp: 2025-09-08T07:30:00Z'')
     = Some (str ''timestamp'', str ''2025-09-08T07:30:00Z'')"
  "match_key_value (str ''  fiber_loss_dB:2.1 '') = Some (str ''fiber_loss_dB'', str ''2.1 '')"
  "match_key_value (str ''vendor: CDOT'' @ [0x0D]) = Some (str ''vendor'', str ''CDOT'')"
  "match_key_value (str ''vendor:'') = None"
  "match_key_value (str '': CDOT'') = None"
  "match_key_value (str ''free text'') = None"
  "match_key_value [] = None"
  by code_simp+

lemma field_of_line_examples:
  "field_of_line example_toLowerCase (str ''sifted_bits: 1_050_000'') = Some (str ''security.sifted_bits'')"
  "field_of_line example_toLowerCase (str ''Fiber Loss dB: 2.1'') = Some (str ''link.fiber_loss_dB'')"
  "field_of_line example_toLowerCase (str ''detector_max_Mcps: 20'') = Some (str ''detector.max_Mcps'')"
  "field_of_line example_toLowerCase (str ''operator: a'') = None"
  "field_of_line example_toLowerCase (str ''constructor: 1'') = None"
  "inherited_key example_toLowerCase (str ''constructor: 1'')"
  "inherited_key example_toLowerCase (str ''__proto__: 1'')"
  "\<not> inherited_key example_toLowerCase (str ''vendor: CDOT'')"
  by code_simp+

text \<open>
  White space that is not ASCII: a byte order mark before the key is skipped as white
  space, and a line separator inside the value keeps the line from matching.
\<close>

lemma unicode_space_examples:
  "field_of_line example_toLowerCase ([0xFEFF] @ str ''vendor: X'')
     = Some (str ''meta.vendor'')"
  "trim ([0xFEFF] @ str ''vendor: X'' @ [0xA0]) = str ''vendor: X''"
  "match_key_value (str ''vendor: A'' @ [0x2028] @ str ''B'') = None"
  "(case preParseWithRegex example_toLowerCase (\<lambda>s. NaN) ([0xFEFF] @ str ''vendor: X'') of
      Inl e \<Rightarrow> False
    | Inr (pd, rem) \<Rightarrow>
        map snippet (partial_provenance pd) = [str ''vendor: X''] \<and> rem = [])"
  by code_simp+

subsection \<open>The scan of the lines\<close>

lemma split_on_first: "\<exists>ls. split_on c s = takeWhile (\<lambda>x. x \<noteq> c) s # ls"
  by (induction s) (auto split: list.splits)

lemma looks_like_json_or_csv_iff:
  "looks_like_json_or_csv logs \<longleftrightarrow>
     (startsWith (trim logs) (str ''{'') \<and> endsWith (trim logs) (str ''}''))
   \<or> (startsWith (trim logs) (str ''['') \<and> endsWith (trim logs) (str '']''))
   \<or> includes_char (takeWhile (\<lambda>c. c \<noteq> 0x0A) logs) 0x2C"
proof -
  obtain ls where "split_on 0x0A logs = takeWhile (\<lambda>c. c \<noteq> 0x0A) logs # ls"
    using split_on_first by blast
  then show ?thesis
    by (simp add: looks_like_json_or_csv_def Let_def)
qed

lemma scan_line_field:
  assumes "field_of_line toLowerCase l = Some p"
  shows "\<exists>v. scan_line toLowerCase Number l st =
           Inr (st\<lparr>preParsedData :=
             \<lparr>leaves = setNestedValue Number (leaves (preParsedData st)) p v,
              partial_provenance = partial_provenance (preParsedData st) @
                [\<lparr>field = p, span = None, snippet = trim l,
                  confidence_score = Some (Fin 1), top_3_alternatives = None\<rparr>]\<rparr>\<rparr>)"
  using assms
  by (auto simp: field_of_line_def scan_line_def Let_def
      split: option.splits prod.splits key_lookup.splits)

lemma scan_line_remaining:
  assumes "field_of_line toLowerCase l = None" and "\<not> inherited_key toLowerCase l"
  shows "scan_line toLowerCase Number l st = Inr (st\<lparr>remainingLines := remainingLines st @ [l]\<rparr>)"
  using assms
  by (auto simp: field_of_line_def inherited_key_def scan_line_def Let_def
      split: option.splits prod.splits key_lookup.splits)

lemma scan_line_throws:
  assumes "inherited_key toLowerCase l"
  shows "scan_line toLowerCase Number l st = Inl (Error (str ''path.split is not a function''))"
  using assms
  by (auto simp: inherited_key_def scan_line_def Let_def
      split: option.splits prod.splits key_lookup.splits)

lemma dom_setNestedValue: "dom (setNestedValue Number obj p v) = insert p (dom obj)"
  by (simp add: setNestedValue_def Let_def)

lemma scan_lines_result:
  assumes "\<forall>l \<in> set ls. \<not> inherited_key toLowerCase l"
  shows "\<exists>st'. scan_lines toLowerCase Number ls st = Inr st'
           \<and> remainingLines st' = remainingLines st @ filter (\<lambda>l. field_of_line toLowerCase l = None) ls
           \<and> partial_provenance (preParsedData st')
               = partial_provenance (preParsedData st) @ List.map_filter (entry_of_line toLowerCase) ls
           \<and> dom (leaves (preParsedData st'))
               = dom (leaves (preParsedData st)) \<union> {p. \<exists>l \<in> set ls. field_of_line toLowerCase l = Some p}"
  using assms
proof (induction ls arbitrary: st)
  case Nil
  then show ?case by (simp add: List.map_filter_simps)
next
  case (Cons l ls)
  then have ni: "\<not> inherited_key toLowerCase l" and rest: "\<forall>l \<in> set ls. \<not> inherited_key toLowerCase l"
    by simp_all
  show ?case
  proof (cases "field_of_line toLowerCase l")
    case None
    let ?st = "st\<lparr>remainingLines := remainingLines st @ [l]\<rparr>"
    have s: "scan_line toLowerCase Number l st = Inr ?st"
      by (rule scan_line_remaining [OF None ni])
    from Cons.IH [OF rest, of ?st] obtain st' where
      "scan_lines toLowerCase Number ls ?st = Inr st'"
      "remainingLines st' = remainingLines ?st @ filter (\<lambda>l. field_of_line toLowerCase l = None) ls"
      "partial_provenance (preParsedData st')
         = partial_provenance (preParsedData ?st) @ List.map_filter (entry_of_line toLowerCase) ls"
      "dom (leaves (preParsedData st'))
         = dom (leaves (preParsedData ?st)) \<union> {p. \<exists>l \<in> set ls. field_of_line toLowerCase l = Some p}"
      by blast
    moreover have "entry_of_line toLowerCase l = None"
      using None by (simp add: entry_of_line_def)
    ultimately show ?thesis
      using None by (simp add: s List.map_filter_simps)
  next
    case (Some p)
    then obtain v where s: "scan_line toLowerCase Number l st =
           Inr (st\<lparr>preParsedData :=
             \<lparr>leaves = setNestedValue Number (leaves (preParsedData st)) p v,
              partial_provenance = partial_provenance (preParsedData st) @
                [\<lparr>field = p, span = None, snippet = trim l,
                  confidence_score = Some (Fin 1), top_3_alternatives = None\<rparr>]\<rparr>\<rparr>)"
      using scan_line_field [of toLowerCase l p Number st] by blast
    let ?st = "st\<lparr>preParsedData :=
             \<lparr>leaves = setNestedValue Number (leaves (preParsedData st)) p v,
              partial_provenance = partial_provenance (preParsedData st) @
                [\<lparr>field = p, span = None, snippet = trim l,
                  confidence_score = Some (Fin 1), top_3_alternatives = None\<rparr>]\<rparr>\<rparr>"
    from Cons.IH [OF rest, of ?st] obtain st' where
      "scan_lines toLowerCase Number ls ?st = Inr st'"
      "remainingLines st' = remainingLines ?st @ filter (\<lambda>l. field_of_line toLowerCase l = None) ls"
      "partial_provenance (preParsedData st')
         = partial_provenance (preParsedData ?st) @ List.map_filter (entry_of_line toLowerCase) ls"
      "dom (leaves (preParsedData st'))
         = dom (leaves (preParsedData ?st)) \<union> {p. \<exists>l \<in> set ls. field_of_line toLowerCase l = Some p}"
      by blast
    moreover have "entry_of_line toLowerCase l = Some \<lparr>field = p, span = None, snippet = trim l,
        confidence_score = Some (Fin 1), top_3_alternatives = None\<rparr>"
      using Some by (simp add: entry_of_line_def)
    ultimately show ?thesis
      using Some by (auto simp: s List.map_filter_simps dom_setNestedValue)
  qed
qed

lemma scan_lines_throws:
  assumes "\<exists>l \<in> set ls. inherited_key toLowerCase l"
  shows "scan_lines toLowerCase Number ls st = Inl (Error (str ''path.split is not a function''))"
  using assms
proof (induction ls arbitrary: st)
  case Nil
  then show ?case by simp
next
  case (Cons l ls)
  show ?case
  proof (cases "inherited_key toLowerCase l")
    case True
    then show ?thesis by (simp add: scan_line_throws)
  next
    case False
    then have r: "\<exists>l \<in> set ls. inherited_key toLowerCase l" using Cons.prems by simp
    show ?thesis
    proof (cases "field_of_line toLowerCase l")
      case None
      then show ?thesis
        by (simp add: scan_line_remaining [OF None False] Cons.IH [OF r])
    next
      case (Some p)
      then obtain v where "scan_line toLowerCase Number l st =
           Inr (st\<lparr>preParsedData :=
             \<lparr>leaves = setNestedValue Number (leaves (preParsedData st)) p v,
              partial_provenance = partial_provenance (preParsedData st) @
                [\<lparr>field = p, span = None, snippet = trim l,
                  confidence_score = Some (Fin 1), top_3_alternatives = None\<rparr>]\<rparr>\<rparr>)"
        using scan_line_field [of toLowerCase l p Number st] by blast
      then show ?thesis
        by (simp add: Cons.IH [OF r])
    qed
  qed
qed

lemma preParse_result:
  assumes "\<not> looks_like_json_or_csv logs"
    and "\<forall>l \<in> set (split_on 0x0A logs). \<not> inherited_key toLowerCase l"
  shows "\<exists>pd. preParseWithRegex toLowerCase Number logs =
            Inr (pd, trim (join [0x0A]
                   (filter (\<lambda>l. field_of_line toLowerCase l = None) (split_on 0x0A logs))))
          \<and> partial_provenance pd = List.map_filter (entry_of_line toLowerCase) (split_on 0x0A logs)
          \<and> dom (leaves pd) = {p. \<exists>l \<in> set (split_on 0x0A logs). field_of_line toLowerCase l = Some p}"
proof -
  from scan_lines_result [OF assms(2),
      where Number = Number and st = "\<lparr>preParsedData = empty_record, remainingLines = []\<rparr>"]
  obtain st' where
    "scan_lines toLowerCase Number (split_on 0x0A logs)
       \<lparr>preParsedData = empty_record, remainingLines = []\<rparr> = Inr st'"
    "remainingLines st' = filter (\<lambda>l. field_of_line toLowerCase l = None) (split_on 0x0A logs)"
    "partial_provenance (preParsedData st')
       = List.map_filter (entry_of_line toLowerCase) (split_on 0x0A logs)"
    "dom (leaves (preParsedData st'))
       = {p. \<exists>l \<in> set (split_on 0x0A logs). field_of_line toLowerCase l = Some p}"
    by (auto simp: empty_record_def)
  then show ?thesis
    using assms(1) by (simp add: preParseWithRegex_def)
qed

lemma in_set_map_filter:
  "f x = Some y \<Longrightarrow> x \<in> set xs \<Longrightarrow> y \<in> set (List.map_filter f xs)"
  by (induction xs) (auto split: option.splits)

text \<open>
  A matching line whose key names a property of \<^verbatim>\<open>Object.prototype\<close>, which after
  \<^verbatim>\<open>toLowerCase\<close> is \<^verbatim>\<open>constructor\<close> or \<^verbatim>\<open>__proto__\<close>, makes the pre-parser
  throw.
\<close>

lemma preParse_throws:
  assumes "\<not> looks_like_json_or_csv logs"
    and "\<exists>l \<in> set (split_on 0x0A logs). inherited_key toLowerCase l"
  shows "preParseWithRegex toLowerCase Number logs
           = Inl (Error (str ''path.split is not a function''))"
  using assms(1) by (simp add: preParseWithRegex_def scan_lines_throws [OF assms(2)])

lemma preParse_constructor:
  "preParseWithRegex example_toLowerCase Number (str ''Constructor: 1'')
     = Inl (Error (str ''path.split is not a function''))"
proof -
  have "\<not> looks_like_json_or_csv (str ''Constructor: 1'')"
    by code_simp
  moreover have "\<exists>l \<in> set (split_on 0x0A (str ''Constructor: 1'')).
      inherited_key example_toLowerCase l"
    by code_simp
  ultimately show ?thesis
    by (rule preParse_throws)
qed

subsection \<open>The guard\<close>

text \<open>
  Claim C7. When the trimmed input starts with an opening brace and ends with a closing
  brace, or starts with an opening bracket and ends with a closing bracket, or the first
  line of the input contains a comma, the pre-parser returns the empty partial record,
  with no leaf and no provenance, and the input itself, unchanged, as the remaining text.
\<close>

theorem guard_is_noop:
  assumes "(startsWith (trim logs) (str ''{'') \<and> endsWith (trim logs) (str ''}''))
         \<or> (startsWith (trim logs) (str ''['') \<and> endsWith (trim logs) (str '']''))
         \<or> includes_char (takeWhile (\<lambda>c. c \<noteq> 0x0A) logs) 0x2C"
  shows "preParseWithRegex toLowerCase Number logs
           = Inr (\<lparr>leaves = Map.empty, partial_provenance = []\<rparr>, logs)"
proof -
  have "looks_like_json_or_csv logs"
    using assms by (simp only: looks_like_json_or_csv_iff)
  then show ?thesis
    by (simp add: preParseWithRegex_def empty_record_def)
qed

theorem guard_is_noop_witness:
  \<open>preParseWithRegex example_toLowerCase (\<lambda>s. NaN) (str ''{"a":1}'')
     = Inr (\<lparr>leaves = Map.empty, partial_provenance = []\<rparr>, str ''{"a":1}'')
 \<and> preParseWithRegex example_toLowerCase (\<lambda>s. NaN) (str ''a,b,c'' @ [0x0A] @ str ''1,2,3'')
     = Inr (\<lparr>leaves = Map.empty, partial_provenance = []\<rparr>,
            str ''a,b,c'' @ [0x0A] @ str ''1,2,3'')\<close>
proof -
  have a: \<open>startsWith (trim (str ''{"a":1}'')) (str ''{'') \<and> endsWith (trim (str ''{"a":1}'')) (str ''}'')\<close>
    by code_simp
  have b: "includes_char (takeWhile (\<lambda>c. c \<noteq> 0x0A) (str ''a,b,c'' @ [0x0A] @ str ''1,2,3''))
             0x2C"
    by code_simp
  show ?thesis
    using guard_is_noop [OF disjI1, OF a, of example_toLowerCase "\<lambda>s. NaN"]
      guard_is_noop [OF disjI2, OF disjI2, OF b, of example_toLowerCase "\<lambda>s. NaN"]
    by (intro conjI)
qed

subsection \<open>Recognised lines\<close>

text \<open>
  Claim C6, as stated, fails on a line with leading white space: the snippet of the
  provenance entry is the trimmed line.
\<close>

theorem snippet_is_trimmed_counterexample:
  "field_of_line example_toLowerCase (str ''  vendor: X'') = Some (str ''meta.vendor'')
 \<and> \<not> looks_like_json_or_csv (str ''  vendor: X'')
 \<and> (case preParseWithRegex example_toLowerCase (\<lambda>s. NaN) (str ''  vendor: X'') of
       Inl e \<Rightarrow> False
     | Inr (pd, rem) \<Rightarrow>
         map snippet (partial_provenance pd) = [str ''vendor: X'']
       \<and> map snippet (partial_provenance pd) \<noteq> [str ''  vendor: X''])"
  by code_simp

text \<open>
  Claim C6, amended. For an input that the guard lets through and in which no matching
  line has a key that names a property of \<^verbatim>\<open>Object.prototype\<close> (\<^verbatim>\<open>constructor\<close> or
  \<^verbatim>\<open>__proto__\<close>, once in lower case), the pre-parser returns, and for
  every line of the input that matches the pattern with a key of the table, the path of
  the key is set in the partial record and the provenance holds an entry for that path
  with confidence 1.0 whose snippet is the line, trimmed at both ends. The provenance
  consists of these entries, one for each recognised line, in the order of the lines.
\<close>

theorem recognised_line_is_recorded:
  assumes "\<not> looks_like_json_or_csv logs"
    and "\<forall>l \<in> set (split_on 0x0A logs). \<not> inherited_key toLowerCase l"
    and "line \<in> set (split_on 0x0A logs)"
    and "field_of_line toLowerCase line = Some path"
  shows "\<exists>pd rem. preParseWithRegex toLowerCase Number logs = Inr (pd, rem)
          \<and> leaves pd path \<noteq> None
          \<and> \<lparr>field = path, span = None, snippet = trim line,
              confidence_score = Some (Fin 1), top_3_alternatives = None\<rparr>
               \<in> set (partial_provenance pd)
          \<and> partial_provenance pd
              = List.map_filter (entry_of_line toLowerCase) (split_on 0x0A logs)"
proof -
  from preParse_result [OF assms(1,2), where Number = Number] obtain pd where
    r: "preParseWithRegex toLowerCase Number logs =
            Inr (pd, trim (join [0x0A]
                   (filter (\<lambda>l. field_of_line toLowerCase l = None) (split_on 0x0A logs))))"
    and p: "partial_provenance pd = List.map_filter (entry_of_line toLowerCase) (split_on 0x0A logs)"
    and d: "dom (leaves pd)
              = {p. \<exists>l \<in> set (split_on 0x0A logs). field_of_line toLowerCase l = Some p}"
    by blast
  have "path \<in> dom (leaves pd)"
    using assms(3,4) d by blast
  then have 1: "leaves pd path \<noteq> None"
    by blast
  have "entry_of_line toLowerCase line = Some \<lparr>field = path, span = None, snippet = trim line,
              confidence_score = Some (Fin 1), top_3_alternatives = None\<rparr>"
    using assms(4) by (simp add: entry_of_line_def)
  then have 2: "\<lparr>field = path, span = None, snippet = trim line,
              confidence_score = Some (Fin 1), top_3_alternatives = None\<rparr>
               \<in> set (partial_provenance pd)"
    using assms(3) by (simp add: p in_set_map_filter)
  show ?thesis
    using r p 1 2 by blast
qed

theorem recognised_line_is_recorded_witness:
  "\<exists>pd rem. preParseWithRegex example_toLowerCase (\<lambda>s. NaN) (str ''  vendor: X'') = Inr (pd, rem)
          \<and> leaves pd (str ''meta.vendor'') \<noteq> None
          \<and> \<lparr>field = str ''meta.vendor'', span = None, snippet = str ''vendor: X'',
              confidence_score = Some (Fin 1), top_3_alternatives = None\<rparr>
               \<in> set (partial_provenance pd)"
proof -
  have a: "\<not> looks_like_json_or_csv (str ''  vendor: X'')"
    by code_simp
  have b: "\<forall>l \<in> set (split_on 0x0A (str ''  vendor: X'')). \<not> inherited_key example_toLowerCase l"
    by code_simp
  have c: "str ''  vendor: X'' \<in> set (split_on 0x0A (str ''  vendor: X''))"
    by code_simp
  have d: "field_of_line example_toLowerCase (str ''  vendor: X'') = Some (str ''meta.vendor'')"
    by code_simp
  have e: "trim (str ''  vendor: X'') = str ''vendor: X''"
    by code_simp
  show ?thesis
    using recognised_line_is_recorded [OF a b c d, where Number = "\<lambda>s. NaN"] unfolding e by blast
qed

subsection \<open>The remaining text\<close>

text \<open>
  Claim C9, as stated, fails on a line with leading white space that is not recognised:
  the remaining text is trimmed, so that it is not the line as it was.
\<close>

theorem remaining_is_trimmed_counterexample:
  "\<not> looks_like_json_or_csv (str ''  hello'')
 \<and> field_of_line example_toLowerCase (str ''  hello'') = None
 \<and> join [0x0A] (filter (\<lambda>l. field_of_line example_toLowerCase l = None)
      (split_on 0x0A (str ''  hello'')))
     = str ''  hello''
 \<and> (case preParseWithRegex example_toLowerCase (\<lambda>s. NaN) (str ''  hello'') of
       Inl e \<Rightarrow> False
     | Inr (pd, rem) \<Rightarrow> rem = str ''hello'' \<and> rem \<noteq> str ''  hello'')"
  by code_simp

text \<open>
  Claim C9, amended. For an input that the guard lets through and in which no matching
  line has a key that names a property of \<^verbatim>\<open>Object.prototype\<close> (\<^verbatim>\<open>constructor\<close> or
  \<^verbatim>\<open>__proto__\<close>, once in lower case), the pre-parser returns, and the
  remaining text is the lines of the input that do not match the pattern or whose key is
  not in the table, as they were and in their order, joined by line feeds, and the whole
  trimmed at both ends.
\<close>

theorem remaining_lines:
  assumes "\<not> looks_like_json_or_csv logs"
    and "\<forall>l \<in> set (split_on 0x0A logs). \<not> inherited_key toLowerCase l"
  shows "\<exists>pd. preParseWithRegex toLowerCase Number logs =
            Inr (pd, trim (join [0x0A]
                   (filter (\<lambda>l. field_of_line toLowerCase l = None) (split_on 0x0A logs))))"
  using preParse_result [OF assms, where Number = Number] by blast

theorem remaining_lines_witness:
  "\<exists>pd. preParseWithRegex example_toLowerCase (\<lambda>s. NaN)
           ([0x0A] @ str ''vendor: CDOT'' @ [0x0A] @ str ''operator: a: b'' @ [0x0A]
            @ str ''  free text'' @ [0x0A])
         = Inr (pd, str ''operator: a: b'' @ [0x0A] @ str ''  free text'')"
proof -
  let ?logs = "[0x0A] @ str ''vendor: CDOT'' @ [0x0A] @ str ''operator: a: b'' @ [0x0A]
            @ str ''  free text'' @ [0x0A]"
  have a: "\<not> looks_like_json_or_csv ?logs"
    by code_simp
  have b: "\<forall>l \<in> set (split_on 0x0A ?logs). \<not> inherited_key example_toLowerCase l"
    by code_simp
  have c: "trim (join [0x0A]
             (filter (\<lambda>l. field_of_line example_toLowerCase l = None)
                (split_on 0x0A ?logs)))
           = str ''operator: a: b'' @ [0x0A] @ str ''  free text''"
    by code_simp
  show ?thesis
    using remaining_lines [OF a b, where Number = "\<lambda>s. NaN"] unfolding c by blast
qed

end
